theory Spec2Isabelle
  imports Complex_Main
begin

section \<open>Python and numpy values\<close>

text \<open>
  The viewer widget of PyIGL_viewer (viewer/viewer_widget.py) is Python over numpy.
  Floating-point numbers are modelled as real numbers: every comparison the theorems
  below evaluate is decided by values far from a rounding boundary, and IEEE
  infinities and NaN (division by a zero \<open>w\<close> in the projection) are outside the model.
  An exception is a value of type \<open>error\<close>, returned as \<open>Inl\<close>.
\<close>

datatype error =
    KeyError
  | IndexError
  | ValueError string
  | TypeError
  | UnboundLocalError
  | InvalidReferenceError

definition bind :: "error + 'a \<Rightarrow> ('a \<Rightarrow> error + 'b) \<Rightarrow> error + 'b" where
  "bind m f = (case m of Inl e \<Rightarrow> Inl e | Inr a \<Rightarrow> f a)"

type_synonym vec3 = "real \<times> real \<times> real"

text \<open>Elementwise difference \<open>a - b\<close> of two rows, \<open>np.cross(a, b)\<close> and
  \<open>(a * b).sum()\<close> of two rows.\<close>

fun vsub :: "vec3 \<Rightarrow> vec3 \<Rightarrow> vec3" where
  "vsub (a1, a2, a3) (b1, b2, b3) = (a1 - b1, a2 - b2, a3 - b3)"

fun cross :: "vec3 \<Rightarrow> vec3 \<Rightarrow> vec3" where
  "cross (a1, a2, a3) (b1, b2, b3) =
     (a2 * b3 - a3 * b2, a3 * b1 - a1 * b3, a1 * b2 - a2 * b1)"

fun dot :: "vec3 \<Rightarrow> vec3 \<Rightarrow> real" where
  "dot (a1, a2, a3) (b1, b2, b3) = a1 * b1 + a2 * b2 + a3 * b3"

text \<open>
  numpy indexing of an axis of length \<open>n\<close> with the integer \<open>i\<close>: a negative index
  counts from the end, an index outside \<open>-n .. n-1\<close> raises IndexError.
\<close>

definition np_index :: "nat \<Rightarrow> int \<Rightarrow> nat option" where
  "np_index n i =
     (if 0 \<le> i \<and> i < int n then Some (nat i)
      else if - int n \<le> i \<and> i < 0 then Some (nat (i + int n))
      else None)"

text \<open>\<open>xs[idx]\<close> with an integer array \<open>idx\<close> (fancy indexing along the first axis).\<close>

fun take_rows :: "'a list \<Rightarrow> int list \<Rightarrow> error + 'a list" where
  "take_rows xs [] = Inr []"
| "take_rows xs (i # idx) =
     (case np_index (length xs) i of
        None \<Rightarrow> Inl IndexError
      | Some k \<Rightarrow> bind (take_rows xs idx) (\<lambda>rest. Inr (xs ! k # rest)))"

text \<open>
  \<open>faces[:, j]\<close>: a two-dimensional integer array is the list of its rows; the column
  \<open>j\<close> exists when every row has more than \<open>j\<close> entries.
\<close>

definition column :: "nat \<Rightarrow> int list list \<Rightarrow> error + int list" where
  "column j faces =
     (if list_all (\<lambda>row. j < length row) faces then Inr (map (\<lambda>row. row ! j) faces)
      else Inl IndexError)"

text \<open>
  A binary elementwise operation on two one-dimensional arrays, with numpy's
  broadcasting: equal lengths, or one operand of length 1, which is repeated; any
  other pair of lengths raises ValueError.
\<close>

definition broadcast :: "('a \<Rightarrow> 'b \<Rightarrow> 'c) \<Rightarrow> 'a list \<Rightarrow> 'b list \<Rightarrow> error + 'c list" where
  "broadcast f xs ys =
     (if length xs = length ys then Inr (map2 f xs ys)
      else if length ys = 1 then Inr (map (\<lambda>x. f x (hd ys)) xs)
      else if length xs = 1 then Inr (map (\<lambda>y. f (hd xs) y) ys)
      else Inl (ValueError ''operands could not be broadcast together''))"

text \<open>\<open>xs[mask]\<close> with a Boolean mask: the mask has the length of the axis.\<close>

definition mask_select :: "'a list \<Rightarrow> bool list \<Rightarrow> error + 'a list" where
  "mask_select xs msk =
     (if length msk = length xs then Inr (map fst (filter snd (zip xs msk)))
      else Inl IndexError)"

text \<open>
  \<open>xs[mask] = vals\<close>: the values go, in order, to the positions where the mask is
  true. \<open>vals\<close> has one value per true position, or a single value that is repeated;
  otherwise numpy raises ValueError (cannot assign n input values to the m output
  values where the mask is true).
\<close>

fun assign_masked :: "'a list \<Rightarrow> bool list \<Rightarrow> 'a list \<Rightarrow> 'a list" where
  "assign_masked (x # xs) (True # ms) (v # vs) = v # assign_masked xs ms vs"
| "assign_masked (x # xs) (False # ms) vs = x # assign_masked xs ms vs"
| "assign_masked xs ms vs = xs"

definition mask_assign :: "'a list \<Rightarrow> bool list \<Rightarrow> 'a list \<Rightarrow> error + 'a list" where
  "mask_assign xs msk vals =
     (if length msk \<noteq> length xs then Inl IndexError
      else if length vals = length (filter id msk) then Inr (assign_masked xs msk vals)
      else if length vals = 1 then
        Inr (assign_masked xs msk (replicate (length (filter id msk)) (hd vals)))
      else Inl (ValueError ''cannot assign input values to the output values where the mask is true''))"

text \<open>A function that may raise, applied to every element in turn.\<close>

fun traverse :: "('a \<Rightarrow> error + 'b) \<Rightarrow> 'a list \<Rightarrow> error + 'b list" where
  "traverse f [] = Inr []"
| "traverse f (x # xs) =
     bind (f x) (\<lambda>y. bind (traverse f xs) (\<lambda>ys. Inr (y # ys)))"

text \<open>\<open>msk[idx] = True\<close> with an integer array \<open>idx\<close>, and \<open>np.unique\<close>.\<close>

fun set_true :: "bool list \<Rightarrow> int list \<Rightarrow> error + bool list" where
  "set_true msk [] = Inr msk"
| "set_true msk (i # idx) =
     (case np_index (length msk) i of
        None \<Rightarrow> Inl IndexError
      | Some k \<Rightarrow> set_true (msk[k := True]) idx)"

definition np_unique :: "int list \<Rightarrow> int list" where
  "np_unique xs = sort (remdups xs)"

definition mean :: "real list \<Rightarrow> real" where
  "mean xs = sum_list xs / real (length xs)"

text \<open>\<open>np.any\<close> of a Boolean array, and \<open>np.argmin\<close>: the first position of the
  least value (of a non-empty array).\<close>

definition np_any :: "bool list \<Rightarrow> bool" where
  "np_any bs = list_ex id bs"

fun argmin_from :: "nat \<Rightarrow> real \<Rightarrow> nat \<Rightarrow> real list \<Rightarrow> nat" where
  "argmin_from best m i [] = best"
| "argmin_from best m i (x # xs) =
     (if x < m then argmin_from i x (Suc i) xs else argmin_from best m (Suc i) xs)"

definition argmin :: "real list \<Rightarrow> nat" where
  "argmin xs = (case xs of [] \<Rightarrow> 0 | x # rest \<Rightarrow> argmin_from 0 x 1 rest)"

section \<open>Ray and triangle intersection\<close>

text \<open>
  \<open>ViewerWidget.intersect_triangles(ray_start, ray_end, vertices, faces)\<close>,
  viewer_widget.py lines 143 to 176. \<open>vertices\<close> is an N x 3 array, \<open>faces\<close> an integer
  array of M rows (\<open>np.bool\<close> of line 165 is numpy's alias of \<open>bool\<close>, as in the numpy
  versions that have it). The per-face quantities of the source are named as there:
  \<open>E1\<close>, \<open>E2\<close>, \<open>N\<close>, \<open>det\<close>, \<open>AO\<close>, \<open>DAO\<close>; \<open>RD - RO\<close> is the same row for every face.
\<close>

definition gather :: "vec3 list \<Rightarrow> int list list \<Rightarrow> nat \<Rightarrow> error + vec3 list" where
  "gather vertices faces j = bind (column j faces) (take_rows vertices)"

definition face_det :: "vec3 \<Rightarrow> vec3 \<Rightarrow> vec3 \<Rightarrow> vec3 \<Rightarrow> vec3 \<Rightarrow> real" where
  "face_det ray_start ray_end a b c =
     - dot (vsub ray_end ray_start) (cross (vsub b a) (vsub c a))"

definition u_numerator :: "vec3 \<Rightarrow> vec3 \<Rightarrow> vec3 \<Rightarrow> vec3 \<Rightarrow> vec3 \<Rightarrow> real" where
  "u_numerator ray_start ray_end a b c =
     dot (vsub c a) (cross (vsub ray_start a) (vsub ray_end ray_start))"

definition v_numerator :: "vec3 \<Rightarrow> vec3 \<Rightarrow> vec3 \<Rightarrow> vec3 \<Rightarrow> vec3 \<Rightarrow> real" where
  "v_numerator ray_start ray_end a b c =
     - dot (vsub b a) (cross (vsub ray_start a) (vsub ray_end ray_start))"

definition t_numerator :: "vec3 \<Rightarrow> vec3 \<Rightarrow> vec3 \<Rightarrow> vec3 \<Rightarrow> vec3 \<Rightarrow> real" where
  "t_numerator ray_start ray_end a b c =
     dot (vsub ray_start a) (cross (vsub b a) (vsub c a))"

definition intersect_triangles ::
  "vec3 \<Rightarrow> vec3 \<Rightarrow> vec3 list \<Rightarrow> int list list \<Rightarrow> error + bool list" where
  "intersect_triangles ray_start ray_end vertices faces =
     bind (gather vertices faces 0) (\<lambda>A.
     bind (gather vertices faces 1) (\<lambda>B.
     bind (gather vertices faces 2) (\<lambda>C.
       let ABC = zip A (zip B C);
           det = map (\<lambda>(a, b, c). face_det ray_start ray_end a b c) ABC;
           valid_mask = map (\<lambda>d. d \<noteq> 0) det;
           intersect = replicate (length A) False
       in if np_any valid_mask then
            bind (mask_select det valid_mask) (\<lambda>valid_det.
            let inv_det = map (\<lambda>d. 1 / d) valid_det in
            bind (broadcast (*) (map (\<lambda>(a, b, c). u_numerator ray_start ray_end a b c) ABC) inv_det) (\<lambda>u.
            bind (broadcast (*) (map (\<lambda>(a, b, c). v_numerator ray_start ray_end a b c) ABC) inv_det) (\<lambda>v.
            bind (broadcast (*) (map (\<lambda>(a, b, c). t_numerator ray_start ray_end a b c) ABC) inv_det) (\<lambda>t.
            bind (broadcast (\<and>) (map (\<lambda>d. 1 / 1000000 \<le> d) det) (map (\<lambda>x. 0 \<le> x) t)) (\<lambda>c1.
            bind (broadcast (\<and>) c1 (map (\<lambda>x. 0 \<le> x) u)) (\<lambda>c2.
            bind (broadcast (\<and>) c2 (map (\<lambda>x. 0 \<le> x) v)) (\<lambda>c3.
            bind (broadcast (+) u v) (\<lambda>uv.
            bind (broadcast (\<and>) c3 (map (\<lambda>x. x \<le> 1) uv)) (\<lambda>cond.
              mask_assign intersect valid_mask cond)))))))))
          else Inr intersect)))"

text \<open>
  Line 174 on one face: the barycentric coordinates \<open>u\<close> and \<open>v\<close>, the ray parameter
  \<open>t\<close>, and the condition under which the face counts as intersected.
\<close>

definition bary_u :: "vec3 \<Rightarrow> vec3 \<Rightarrow> vec3 \<Rightarrow> vec3 \<Rightarrow> vec3 \<Rightarrow> real" where
  "bary_u ray_start ray_end a b c =
     u_numerator ray_start ray_end a b c * (1 / face_det ray_start ray_end a b c)"

definition bary_v :: "vec3 \<Rightarrow> vec3 \<Rightarrow> vec3 \<Rightarrow> vec3 \<Rightarrow> vec3 \<Rightarrow> real" where
  "bary_v ray_start ray_end a b c =
     v_numerator ray_start ray_end a b c * (1 / face_det ray_start ray_end a b c)"

definition ray_t :: "vec3 \<Rightarrow> vec3 \<Rightarrow> vec3 \<Rightarrow> vec3 \<Rightarrow> vec3 \<Rightarrow> real" where
  "ray_t ray_start ray_end a b c =
     t_numerator ray_start ray_end a b c * (1 / face_det ray_start ray_end a b c)"

definition face_hit :: "vec3 \<Rightarrow> vec3 \<Rightarrow> vec3 \<Rightarrow> vec3 \<Rightarrow> vec3 \<Rightarrow> bool" where
  "face_hit ray_start ray_end a b c =
     (1 / 1000000 \<le> face_det ray_start ray_end a b c \<and>
      0 \<le> ray_t ray_start ray_end a b c \<and>
      0 \<le> bary_u ray_start ray_end a b c \<and>
      0 \<le> bary_v ray_start ray_end a b c \<and>
      bary_u ray_start ray_end a b c + bary_v ray_start ray_end a b c \<le> 1)"

section \<open>The overlay of a frame: picking and index labels\<close>

text \<open>
  \<open>ViewerWidget.paintGL\<close>, lines 277 to 342. \<open>self.vertices\<close> holds homogeneous
  coordinates (N x 4, set by \<open>add_mesh\<close>); \<open>mvp_matrix\<close> is the local variable that the
  drawing loop binds for each visible instance it draws, so it is unbound in a frame
  that draws none. The camera, the widget size and the painter are collaborators: the
  camera position, the width and the height are parameters, and the text the painter
  draws is returned as the list of labelled indices.
\<close>

type_synonym vec4 = "real \<times> real \<times> real \<times> real"

type_synonym mat4 = "vec4 \<times> vec4 \<times> vec4 \<times> vec4"

fun px :: "vec4 \<Rightarrow> real" where "px (x, y, z, w) = x"
fun py :: "vec4 \<Rightarrow> real" where "py (x, y, z, w) = y"
fun pz :: "vec4 \<Rightarrow> real" where "pz (x, y, z, w) = z"
fun xyz :: "vec4 \<Rightarrow> vec3" where "xyz (x, y, z, w) = (x, y, z)"

text \<open>One row of \<open>self.vertices @ mvp_matrix\<close>.\<close>

fun row_times :: "vec4 \<Rightarrow> mat4 \<Rightarrow> vec4" where
  "row_times (x, y, z, w) ((a0, a1, a2, a3), (b0, b1, b2, b3), (c0, c1, c2, c3), (d0, d1, d2, d3)) =
     (x * a0 + y * b0 + z * c0 + w * d0,
      x * a1 + y * b1 + z * c1 + w * d1,
      x * a2 + y * b2 + z * c2 + w * d2,
      x * a3 + y * b3 + z * c3 + w * d3)"

text \<open>Lines 281 to 285 on one row: perspective division of x and y, the map to
  [0,1] and the flip of y.\<close>

fun to_unit :: "vec4 \<Rightarrow> vec4" where
  "to_unit (x, y, z, w) = ((x / w + 1) / 2, 1 - (y / w + 1) / 2, z, w)"

text \<open>Line 286 on one row: every one of the four columns lies in [0,1].\<close>

fun in_range :: "vec4 \<Rightarrow> bool" where
  "in_range (x, y, z, w) =
     ((0 \<le> x \<and> x \<le> 1) \<and> (0 \<le> y \<and> y \<le> 1) \<and> (0 \<le> z \<and> z \<le> 1) \<and> (0 \<le> w \<and> w \<le> 1))"

text \<open>Lines 288 and 289 on one row.\<close>

fun to_pixels :: "real \<Rightarrow> real \<Rightarrow> vec4 \<Rightarrow> vec4" where
  "to_pixels width height (x, y, z, w) = (x * width, y * height, z, w)"

text \<open>
  Lines 291 to 303 and 317 to 320: the selected triangle and the selected vertex, or
  None when the cursor ray meets no face. \<open>selected_position\<close> (line 300) is computed
  from the same indices and used nowhere. \<open>cursor_distance\<close> is the quantity of lines
  302 and 303 whose least value chooses the vertex: the two pixel differences are
  summed and the sum is squared.
\<close>

definition face_depth :: "vec4 list \<Rightarrow> int list \<Rightarrow> error + real" where
  "face_depth projected_vertices face =
     bind (take_rows projected_vertices face) (\<lambda>ps. Inr (mean (map pz ps)))"

definition cursor_distance :: "real \<times> real \<Rightarrow> vec4 \<Rightarrow> real" where
  "cursor_distance cursor_pos p = ((px p - fst cursor_pos) + (py p - snd cursor_pos))\<^sup>2"

definition pick ::
  "real \<times> real \<Rightarrow> vec4 list \<Rightarrow> int list list \<Rightarrow> error + (int list \<times> int) option" where
  "pick cursor_pos projected_vertices faces =
     bind (intersect_triangles (fst cursor_pos, snd cursor_pos, 0) (fst cursor_pos, snd cursor_pos, 1)
             (map xyz projected_vertices) faces) (\<lambda>intersections.
     if np_any intersections then
       bind (mask_select faces intersections) (\<lambda>faces_candidates.
       bind (traverse (face_depth projected_vertices) faces_candidates) (\<lambda>depths.
       let tri_sel = argmin depths;
           selected_triangle = faces_candidates ! tri_sel
       in bind (take_rows projected_vertices selected_triangle) (\<lambda>ps.
          Inr (Some (selected_triangle,
                     selected_triangle ! argmin (map (cursor_distance cursor_pos) ps))))))
     else Inr None)"

text \<open>
  Lines 322 to 342. Line 326 is the back-face test: the face position minus the camera
  position, times the face normal, summed, is negative.
\<close>

definition face_visible :: "vec3 \<Rightarrow> vec3 \<Rightarrow> vec3 \<Rightarrow> bool" where
  "face_visible camera_position face_position face_normal =
     (dot (vsub face_position camera_position) face_normal < 0)"

definition label_indices ::
  "vec4 list \<Rightarrow> bool list \<Rightarrow> int list list \<Rightarrow> vec3 list option \<Rightarrow> vec3 list option \<Rightarrow>
   vec3 \<Rightarrow> real \<Rightarrow> int option \<Rightarrow> error + nat list" where
  "label_indices projected_vertices in_range_mask faces face_positions face_normals
     camera_position draw_indices_distance selected_idx =
     (if 0 < draw_indices_distance then
        (case face_positions of None \<Rightarrow> Inl TypeError | Some fp \<Rightarrow>
         (case face_normals of None \<Rightarrow> Inl TypeError | Some fn \<Rightarrow>
           bind (broadcast (face_visible camera_position) fp fn) (\<lambda>visible_face_idx.
           bind (mask_select faces visible_face_idx) (\<lambda>visible_faces.
           bind (set_true (replicate (length in_range_mask) False)
                   (np_unique (concat visible_faces))) (\<lambda>visible_mask.
           let all_valid_idx = map2 (\<and>) visible_mask in_range_mask;
               indices = [0 ..< length projected_vertices]
           in bind (mask_select projected_vertices all_valid_idx) (\<lambda>projected_valid.
              bind (mask_select indices all_valid_idx) (\<lambda>indices_valid.
              let draw_dist_idx = map (\<lambda>p. pz p < draw_indices_distance) projected_valid
              in bind (mask_select indices_valid draw_dist_idx) (\<lambda>indices_draw.
                 Inr (filter (\<lambda>i. selected_idx \<noteq> Some (int i)) indices_draw)))))))))
      else Inr [])"

text \<open>The overlay of one frame: what is selected and which indices are labelled.\<close>

definition paint_overlay ::
  "vec4 list option \<Rightarrow> int list list \<Rightarrow> vec3 list option \<Rightarrow> vec3 list option \<Rightarrow>
   mat4 option \<Rightarrow> real \<Rightarrow> real \<Rightarrow> real \<times> real \<Rightarrow> vec3 \<Rightarrow> real \<Rightarrow>
   error + ((int list \<times> int) option \<times> nat list)" where
  "paint_overlay vertices faces face_positions face_normals mvp_matrix width height
     cursor_pos camera_position draw_indices_distance =
     (case vertices of
        None \<Rightarrow> Inr (None, [])
      | Some vs \<Rightarrow>
          (case mvp_matrix of
             None \<Rightarrow> Inl UnboundLocalError
           | Some mvp \<Rightarrow>
               let unit = map (\<lambda>v. to_unit (row_times v mvp)) vs;
                   in_range_mask = map in_range unit;
                   projected_vertices = map (to_pixels width height) unit
               in bind (pick cursor_pos projected_vertices faces) (\<lambda>selected.
                  bind (label_indices projected_vertices in_range_mask faces face_positions
                          face_normals camera_position draw_indices_distance
                          (map_option snd selected)) (\<lambda>labels.
                  Inr (selected, labels)))))"

section \<open>Identifiers, values and the mesh module\<close>

text \<open>
  Modelled from the spec: the identifier classes \<open>GlMeshCoreId\<close>, \<open>GlMeshPrefabId\<close> and
  \<open>GlMeshInstanceId\<close> of the module \<open>mesh\<close> are not among the source files. The spec
  gives a core an opaque unique id, a prefab the identity (core id, prefab ordinal)
  and an instance the identity (prefab id, instance ordinal), minted from monotonic
  counters. The viewer reads the attribute \<open>core_id\<close> of all three, and builds a
  prefab id from any of them (\<open>add_wireframe_\<close> passes an instance id).
\<close>

datatype gl_id =
    GlMeshCoreId nat
  | GlMeshPrefabId gl_id nat
  | GlMeshInstanceId gl_id nat

fun core_id :: "gl_id \<Rightarrow> nat" where
  "core_id (GlMeshCoreId n) = n"
| "core_id (GlMeshPrefabId parent n) = core_id parent"
| "core_id (GlMeshInstanceId parent n) = core_id parent"

datatype uniform_value = Scalar real | Vector "real list"

type_synonym attributes = "string \<Rightarrow> vec3 list option"

type_synonym uniforms = "string \<Rightarrow> uniform_value option"

text \<open>A compiled shader program, known by the name it was loaded under.\<close>

datatype shader = ShaderProgram string

text \<open>
  The classes \<open>MeshGroup\<close>, \<open>GlMeshPrefab\<close> and \<open>GlMeshInstance\<close> of the module \<open>mesh\<close>
  are not among the source files either. The viewer is modelled over any
  implementation of them: \<open>'g\<close> is a mesh group, \<open>'p\<close> a prefab, \<open>'i\<close> an instance, and
  the record holds the calls the viewer makes. A method that changes a group, or an
  object inside it, returns the changed group or the exception it raises;
  \<open>update_uniform g prefab_id name v\<close> stands for
  \<open>g.get_prefab(prefab_id).update_uniform(name, v)\<close>, \<open>set_model_matrix\<close> and
  \<open>set_visibility\<close> likewise for \<open>g.get_instance(instance_id)\<close>. The argument
  \<open>copy_from\<close> of \<open>add_prefab\<close> is None, an identifier (\<open>Inl\<close>) or a prefab (\<open>Inr\<close>).
\<close>

record ('g, 'p, 'i) mesh_api =
  new_group :: "vec3 list \<Rightarrow> int list list \<Rightarrow> 'g"
  get_prefab :: "'g \<Rightarrow> gl_id \<Rightarrow> error + 'p"
  get_instance :: "'g \<Rightarrow> gl_id \<Rightarrow> error + 'i"
  add_prefab :: "'g \<Rightarrow> gl_id \<Rightarrow> attributes \<Rightarrow> attributes \<Rightarrow> uniforms \<Rightarrow> shader \<Rightarrow> bool \<Rightarrow>
                 (gl_id + 'p) option \<Rightarrow> error + 'g"
  add_instance :: "'g \<Rightarrow> gl_id \<Rightarrow> mat4 option \<Rightarrow> error + 'g"
  update_vertices :: "'g \<Rightarrow> vec3 list \<Rightarrow> error + 'g"
  update_uniform :: "'g \<Rightarrow> gl_id \<Rightarrow> string \<Rightarrow> uniform_value \<Rightarrow> error + 'g"
  update_prefab_vertex_attribute :: "'g \<Rightarrow> gl_id \<Rightarrow> string \<Rightarrow> vec3 list \<Rightarrow> error + 'g"
  update_prefab_face_attribute :: "'g \<Rightarrow> gl_id \<Rightarrow> string \<Rightarrow> vec3 list \<Rightarrow> error + 'g"
  set_model_matrix :: "'g \<Rightarrow> gl_id \<Rightarrow> mat4 option \<Rightarrow> error + 'g"
  set_visibility :: "'g \<Rightarrow> gl_id \<Rightarrow> bool \<Rightarrow> error + 'g"
  remove_prefab :: "'g \<Rightarrow> gl_id \<Rightarrow> error + 'g"
  remove_instance :: "'g \<Rightarrow> gl_id \<Rightarrow> error + 'g"
  get_model_matrix :: "'i \<Rightarrow> mat4 option"
  get_visibility :: "'i \<Rightarrow> bool"

section \<open>The viewer widget: state, event queue and mesh operations\<close>

text \<open>
  The commands of the pre-draw queue \<open>self.mesh_events\<close>: the list
  \<open>[name, argument, ...]\<close> that a producer puts, with one constructor per name.
\<close>

datatype event =
    Add_mesh gl_id "vec3 list" "int list list"
  | Add_mesh_prefab gl_id string attributes attributes uniforms bool "gl_id option"
  | Add_mesh_instance gl_id "mat4 option"
  | Update_mesh_vertices gl_id "vec3 list"
  | Update_mesh_prefab_uniform gl_id string uniform_value
  | Update_mesh_prefab_vertex_attribute gl_id string "vec3 list"
  | Update_mesh_prefab_face_attribute gl_id string "vec3 list"
  | Update_mesh_instance_model gl_id "mat4 option"
  | Set_mesh_instance_visibility gl_id bool
  | Remove_mesh gl_id
  | Remove_mesh_prefab gl_id
  | Remove_mesh_instance gl_id
  | Clear_all
  | Add_wireframe gl_id "real list"

text \<open>
  The fields of \<open>ViewerWidget\<close> that the mesh operations and the overlay use. \<open>stdout\<close>
  collects what \<open>print\<close> writes. The three counters are the identifier classes'
  (modelled from the spec, as above). \<open>display_point_cloud_vertex_attributes\<close> is the
  dictionary object that Python creates once, when the method is defined, for the
  default \<open>vertex_attributes={}\<close> of \<open>display_point_cloud\<close>: every call that omits
  the argument receives that same object.
\<close>

record 'g viewer =
  shaders :: "string \<Rightarrow> shader option"
  mesh_groups :: "nat \<Rightarrow> 'g option"
  mesh_events :: "event list"
  vertices :: "vec4 list option"
  faces :: "int list list option"
  face_positions :: "vec3 list option"
  face_normals :: "vec3 list option"
  draw_indices_distance :: real
  stdout :: "string list"
  next_core_id :: nat
  next_prefab_id :: nat
  next_instance_id :: nat
  display_point_cloud_vertex_attributes :: attributes

subsection \<open>Lookups (lines 440 to 447)\<close>

definition get_mesh :: "'g viewer \<Rightarrow> gl_id \<Rightarrow> error + 'g" where
  "get_mesh st mesh_id =
     (case mesh_groups st (core_id mesh_id) of None \<Rightarrow> Inl KeyError | Some g \<Rightarrow> Inr g)"

definition get_mesh_prefab ::
  "('g, 'p, 'i) mesh_api \<Rightarrow> 'g viewer \<Rightarrow> gl_id \<Rightarrow> error + 'p" where
  "get_mesh_prefab api st prefab_id =
     bind (get_mesh st prefab_id) (\<lambda>g. get_prefab api g prefab_id)"

definition get_mesh_instance ::
  "('g, 'p, 'i) mesh_api \<Rightarrow> 'g viewer \<Rightarrow> gl_id \<Rightarrow> error + 'i" where
  "get_mesh_instance api st instance_id =
     bind (get_mesh st instance_id) (\<lambda>g. get_instance api g instance_id)"

definition get_mesh_instance_visibility ::
  "('g, 'p, 'i) mesh_api \<Rightarrow> 'g viewer \<Rightarrow> gl_id \<Rightarrow> error + bool" where
  "get_mesh_instance_visibility api st instance_id =
     bind (get_mesh_instance api st instance_id) (\<lambda>i. Inr (get_visibility api i))"

subsection \<open>The producers: the public methods that put a command\<close>

definition put :: "'g viewer \<Rightarrow> event \<Rightarrow> 'g viewer" where
  "put st e = st\<lparr>mesh_events := mesh_events st @ [e]\<rparr>"

text \<open>\<open>vertices[faces].mean(axis=1)\<close>: the mean position of the vertices of a face.\<close>

definition vmean :: "vec3 list \<Rightarrow> vec3" where
  "vmean ps = (mean (map fst ps), mean (map (fst \<circ> snd) ps), mean (map (snd \<circ> snd) ps))"

definition face_position :: "vec3 list \<Rightarrow> int list \<Rightarrow> error + vec3" where
  "face_position vs face = bind (take_rows vs face) (\<lambda>ps. Inr (vmean ps))"

text \<open>Lines 431 to 438. The first two assignments are made before line 434 can raise.\<close>

definition add_mesh ::
  "'g viewer \<Rightarrow> vec3 list \<Rightarrow> int list list \<Rightarrow> 'g viewer \<times> (error + gl_id)" where
  "add_mesh st vs fs =
     (let st1 = st\<lparr>vertices := Some (map (\<lambda>(x, y, z). (x, y, z, 1)) vs), faces := Some fs\<rparr>
      in case traverse (face_position vs) fs of
           Inl e \<Rightarrow> (st1, Inl e)
         | Inr fp \<Rightarrow>
             let cid = GlMeshCoreId (next_core_id st1);
                 st2 = st1\<lparr>face_positions := Some fp, next_core_id := Suc (next_core_id st1)\<rparr>
             in (put st2 (Add_mesh cid vs fs), Inr cid))"

text \<open>Lines 484 to 509.\<close>

definition add_mesh_prefab ::
  "'g viewer \<Rightarrow> gl_id \<Rightarrow> string \<Rightarrow> attributes \<Rightarrow> attributes \<Rightarrow> uniforms \<Rightarrow> bool \<Rightarrow>
   gl_id option \<Rightarrow> 'g viewer \<times> gl_id" where
  "add_mesh_prefab st cid shader_name vertex_attributes face_attributes unis fill copy_from =
     (let prefab_id = GlMeshPrefabId cid (next_prefab_id st);
          st1 = st\<lparr>next_prefab_id := Suc (next_prefab_id st)\<rparr>;
          st2 = (case face_attributes ''normal'' of
                   None \<Rightarrow> st1
                 | Some normals \<Rightarrow> st1\<lparr>face_normals := Some normals\<rparr>)
      in (put st2 (Add_mesh_prefab prefab_id shader_name vertex_attributes face_attributes
                     unis fill copy_from),
          prefab_id))"

text \<open>Lines 514 to 517.\<close>

definition add_mesh_instance ::
  "'g viewer \<Rightarrow> gl_id \<Rightarrow> mat4 option \<Rightarrow> 'g viewer \<times> gl_id" where
  "add_mesh_instance st prefab_id model_matrix =
     (let instance_id = GlMeshInstanceId prefab_id (next_instance_id st);
          st1 = st\<lparr>next_instance_id := Suc (next_instance_id st)\<rparr>
      in (put st1 (Add_mesh_instance instance_id model_matrix), instance_id))"

definition update_mesh_vertices :: "'g viewer \<Rightarrow> gl_id \<Rightarrow> vec3 list \<Rightarrow> 'g viewer" where
  "update_mesh_vertices st cid vs = put st (Update_mesh_vertices cid vs)"

definition update_mesh_prefab_uniform ::
  "'g viewer \<Rightarrow> gl_id \<Rightarrow> string \<Rightarrow> uniform_value \<Rightarrow> 'g viewer" where
  "update_mesh_prefab_uniform st prefab_id name v =
     put st (Update_mesh_prefab_uniform prefab_id name v)"

definition update_mesh_prefab_vertex_attribute ::
  "'g viewer \<Rightarrow> gl_id \<Rightarrow> string \<Rightarrow> vec3 list \<Rightarrow> 'g viewer" where
  "update_mesh_prefab_vertex_attribute st prefab_id name v =
     put st (Update_mesh_prefab_vertex_attribute prefab_id name v)"

definition update_mesh_prefab_face_attribute ::
  "'g viewer \<Rightarrow> gl_id \<Rightarrow> string \<Rightarrow> vec3 list \<Rightarrow> 'g viewer" where
  "update_mesh_prefab_face_attribute st prefab_id name v =
     put st (Update_mesh_prefab_face_attribute prefab_id name v)"

definition update_mesh_instance_model :: "'g viewer \<Rightarrow> gl_id \<Rightarrow> mat4 option \<Rightarrow> 'g viewer" where
  "update_mesh_instance_model st instance_id model = put st (Update_mesh_instance_model instance_id model)"

definition set_mesh_instance_visibility :: "'g viewer \<Rightarrow> gl_id \<Rightarrow> bool \<Rightarrow> 'g viewer" where
  "set_mesh_instance_visibility st instance_id visibility =
     put st (Set_mesh_instance_visibility instance_id visibility)"

definition remove_mesh :: "'g viewer \<Rightarrow> gl_id \<Rightarrow> 'g viewer" where
  "remove_mesh st cid = put st (Remove_mesh cid)"

definition remove_mesh_prefab :: "'g viewer \<Rightarrow> gl_id \<Rightarrow> 'g viewer" where
  "remove_mesh_prefab st prefab_id = put st (Remove_mesh_prefab prefab_id)"

definition remove_mesh_instance :: "'g viewer \<Rightarrow> gl_id \<Rightarrow> 'g viewer" where
  "remove_mesh_instance st instance_id = put st (Remove_mesh_instance instance_id)"

definition clear_all :: "'g viewer \<Rightarrow> 'g viewer" where
  "clear_all st = put st Clear_all"

definition add_wireframe :: "'g viewer \<Rightarrow> gl_id \<Rightarrow> real list \<Rightarrow> 'g viewer" where
  "add_wireframe st mesh_instance_id line_color = put st (Add_wireframe mesh_instance_id line_color)"

text \<open>
  Lines 634 to 658. \<open>vertex_attributes\<close> is None when the caller omits the argument:
  the method then works on the shared default dictionary, and line 643 writes into
  it. A dictionary the caller passes is the caller's own object. \<open>np.tile\<close> gives one
  colour row per point; line 646 gives the faces \<open>[[0], [1], ...]\<close>.
\<close>

definition display_point_cloud ::
  "'g viewer \<Rightarrow> vec3 list \<Rightarrow> string \<Rightarrow> uniforms \<Rightarrow> attributes option \<Rightarrow> attributes \<Rightarrow>
   'g viewer \<times> (error + gl_id)" where
  "display_point_cloud st points shader_name unis vertex_attributes face_attributes =
     (let given = (case vertex_attributes of
                     None \<Rightarrow> display_point_cloud_vertex_attributes st
                   | Some d \<Rightarrow> d);
          va = (if given ''vertexColor'' = None
                then given(''vertexColor'' \<mapsto> replicate (length points) (8 / 10, 2 / 10, 2 / 10))
                else given);
          st1 = (case vertex_attributes of
                   None \<Rightarrow> st\<lparr>display_point_cloud_vertex_attributes := va\<rparr>
                 | Some d \<Rightarrow> st);
          fs = map (\<lambda>i. [int i]) [0 ..< length points]
      in case add_mesh st1 points fs of
           (st2, Inl e) \<Rightarrow> (st2, Inl e)
         | (st2, Inr mesh_id) \<Rightarrow>
             (case add_mesh_prefab st2 mesh_id shader_name va face_attributes unis True None of
                (st3, mesh_prefab_id) \<Rightarrow>
                  (case add_mesh_instance st3 mesh_prefab_id
                          (Some ((1, 0, 0, 0), (0, 1, 0, 0), (0, 0, 1, 0), (0, 0, 0, 1))) of
                     (st4, mesh_instance_id) \<Rightarrow> (st4, Inr mesh_instance_id))))"

subsection \<open>The apply routines: what the render thread runs for a command\<close>

text \<open>
  An apply routine returns the state it leaves and the exception it raises, if any.
  The routine \<open>f_\<close> of the source is written \<open>f_'\<close> here, since an Isabelle name cannot end
  in an underscore.
  \<open>update_group st mesh_id f\<close> is \<open>self.get_mesh(mesh_id).f(...)\<close> for a method \<open>f\<close> that
  changes the group in place.
\<close>

definition update_group ::
  "'g viewer \<Rightarrow> gl_id \<Rightarrow> ('g \<Rightarrow> error + 'g) \<Rightarrow> 'g viewer \<times> error option" where
  "update_group st mesh_id f =
     (case bind (get_mesh st mesh_id) f of
        Inl e \<Rightarrow> (st, Some e)
      | Inr g \<Rightarrow> (st\<lparr>mesh_groups := (mesh_groups st)(core_id mesh_id \<mapsto> g)\<rparr>, None))"

text \<open>Lines 426 to 429. The conversions \<open>astype(np.float32)\<close> and \<open>astype(np.int32)\<close>
  are outside the model of numbers used here.\<close>

definition add_mesh_' ::
  "('g, 'p, 'i) mesh_api \<Rightarrow> 'g viewer \<Rightarrow> gl_id \<Rightarrow> vec3 list \<Rightarrow> int list list \<Rightarrow>
   'g viewer \<times> error option" where
  "add_mesh_' api st cid vs fs =
     (st\<lparr>mesh_groups := (mesh_groups st)(core_id cid \<mapsto> new_group api vs fs)\<rparr>, None)"

text \<open>
  Lines 449 to 482. The whole body stands under \<open>if shader in self.shaders\<close>, and
  the method has no \<open>else\<close>. Inside, \<open>except ValueError\<close> covers lines 461 to 471: the
  lookup of \<open>copy_from\<close> and the first \<open>add_prefab\<close>. The handler prints the error and
  calls \<open>add_prefab\<close> again with \<open>self.shaders["default"]\<close> and with \<open>copy_from\<close> as it
  stands then (the prefab when line 462 had returned, the identifier when it raised).
\<close>

definition add_prefab_default ::
  "('g, 'p, 'i) mesh_api \<Rightarrow> 'g viewer \<Rightarrow> gl_id \<Rightarrow> attributes \<Rightarrow> attributes \<Rightarrow> uniforms \<Rightarrow>
   bool \<Rightarrow> (gl_id + 'p) option \<Rightarrow> 'g viewer \<times> error option" where
  "add_prefab_default api st prefab_id vertex_attributes face_attributes unis fill copy_from =
     (case get_mesh st prefab_id of
        Inl e \<Rightarrow> (st, Some e)
      | Inr g \<Rightarrow>
          (case shaders st ''default'' of
             None \<Rightarrow> (st, Some KeyError)
           | Some d \<Rightarrow>
               update_group st prefab_id (\<lambda>g. add_prefab api g prefab_id vertex_attributes
                 face_attributes unis d fill copy_from)))"

definition add_mesh_prefab_' ::
  "('g, 'p, 'i) mesh_api \<Rightarrow> 'g viewer \<Rightarrow> gl_id \<Rightarrow> string \<Rightarrow> attributes \<Rightarrow> attributes \<Rightarrow>
   uniforms \<Rightarrow> bool \<Rightarrow> gl_id option \<Rightarrow> 'g viewer \<times> error option" where
  "add_mesh_prefab_' api st prefab_id shader_name vertex_attributes face_attributes unis fill copy_from =
     (case shaders st shader_name of
        None \<Rightarrow> (st, None)
      | Some sh \<Rightarrow>
          (case (case copy_from of
                   None \<Rightarrow> Inr None
                 | Some c \<Rightarrow> bind (get_mesh_prefab api st c) (\<lambda>p. Inr (Some (Inr p)))) of
             Inl (ValueError err) \<Rightarrow>
               add_prefab_default api (st\<lparr>stdout := stdout st @ [err]\<rparr>) prefab_id
                 vertex_attributes face_attributes unis fill (map_option Inl copy_from)
           | Inl e \<Rightarrow> (st, Some e)
           | Inr cf \<Rightarrow>
               (case bind (get_mesh st prefab_id) (\<lambda>g. add_prefab api g prefab_id
                       vertex_attributes face_attributes unis sh fill cf) of
                  Inl (ValueError err) \<Rightarrow>
                    add_prefab_default api (st\<lparr>stdout := stdout st @ [err]\<rparr>) prefab_id
                      vertex_attributes face_attributes unis fill cf
                | Inl e \<Rightarrow> (st, Some e)
                | Inr g \<Rightarrow>
                    (st\<lparr>mesh_groups := (mesh_groups st)(core_id prefab_id \<mapsto> g)\<rparr>, None))))"

text \<open>Lines 511 to 581, one routine per command.\<close>

definition add_mesh_instance_' ::
  "('g, 'p, 'i) mesh_api \<Rightarrow> 'g viewer \<Rightarrow> gl_id \<Rightarrow> mat4 option \<Rightarrow> 'g viewer \<times> error option" where
  "add_mesh_instance_' api st instance_id model_matrix =
     update_group st instance_id (\<lambda>g. add_instance api g instance_id model_matrix)"

definition update_mesh_vertices_' ::
  "('g, 'p, 'i) mesh_api \<Rightarrow> 'g viewer \<Rightarrow> gl_id \<Rightarrow> vec3 list \<Rightarrow> 'g viewer \<times> error option" where
  "update_mesh_vertices_' api st cid vs = update_group st cid (\<lambda>g. update_vertices api g vs)"

definition update_mesh_prefab_uniform_' ::
  "('g, 'p, 'i) mesh_api \<Rightarrow> 'g viewer \<Rightarrow> gl_id \<Rightarrow> string \<Rightarrow> uniform_value \<Rightarrow>
   'g viewer \<times> error option" where
  "update_mesh_prefab_uniform_' api st prefab_id name v =
     update_group st prefab_id (\<lambda>g. update_uniform api g prefab_id name v)"

definition update_mesh_prefab_vertex_attribute_' ::
  "('g, 'p, 'i) mesh_api \<Rightarrow> 'g viewer \<Rightarrow> gl_id \<Rightarrow> string \<Rightarrow> vec3 list \<Rightarrow>
   'g viewer \<times> error option" where
  "update_mesh_prefab_vertex_attribute_' api st prefab_id name v =
     update_group st prefab_id (\<lambda>g. update_prefab_vertex_attribute api g prefab_id name v)"

definition update_mesh_prefab_face_attribute_' ::
  "('g, 'p, 'i) mesh_api \<Rightarrow> 'g viewer \<Rightarrow> gl_id \<Rightarrow> string \<Rightarrow> vec3 list \<Rightarrow>
   'g viewer \<times> error option" where
  "update_mesh_prefab_face_attribute_' api st prefab_id name v =
     update_group st prefab_id (\<lambda>g. update_prefab_face_attribute api g prefab_id name v)"

definition update_mesh_instance_model_' ::
  "('g, 'p, 'i) mesh_api \<Rightarrow> 'g viewer \<Rightarrow> gl_id \<Rightarrow> mat4 option \<Rightarrow> 'g viewer \<times> error option" where
  "update_mesh_instance_model_' api st instance_id model =
     update_group st instance_id (\<lambda>g. set_model_matrix api g instance_id model)"

definition set_mesh_instance_visibility_' ::
  "('g, 'p, 'i) mesh_api \<Rightarrow> 'g viewer \<Rightarrow> gl_id \<Rightarrow> bool \<Rightarrow> 'g viewer \<times> error option" where
  "set_mesh_instance_visibility_' api st instance_id visibility =
     update_group st instance_id (\<lambda>g. set_visibility api g instance_id visibility)"

definition remove_mesh_' :: "'g viewer \<Rightarrow> gl_id \<Rightarrow> 'g viewer \<times> error option" where
  "remove_mesh_' st cid =
     (case mesh_groups st (core_id cid) of
        None \<Rightarrow> (st, Some KeyError)
      | Some g \<Rightarrow> (st\<lparr>mesh_groups := (mesh_groups st)(core_id cid := None)\<rparr>, None))"

definition remove_mesh_prefab_' ::
  "('g, 'p, 'i) mesh_api \<Rightarrow> 'g viewer \<Rightarrow> gl_id \<Rightarrow> 'g viewer \<times> error option" where
  "remove_mesh_prefab_' api st prefab_id =
     update_group st prefab_id (\<lambda>g. remove_prefab api g prefab_id)"

definition remove_mesh_instance_' ::
  "('g, 'p, 'i) mesh_api \<Rightarrow> 'g viewer \<Rightarrow> gl_id \<Rightarrow> 'g viewer \<times> error option" where
  "remove_mesh_instance_' api st instance_id =
     update_group st instance_id (\<lambda>g. remove_instance api g instance_id)"

definition clear_all_' :: "'g viewer \<Rightarrow> 'g viewer \<times> error option" where
  "clear_all_' st = (st\<lparr>mesh_groups := Map.empty\<rparr>, None)"

text \<open>
  Lines 700 to 709: the routine calls the producers \<open>add_mesh_prefab\<close> (with the
  instance identifier as its first argument) and \<open>add_mesh_instance\<close>, so it puts two
  commands on the queue it is run from. The model matrix is read between the two.
\<close>

definition add_wireframe_' ::
  "('g, 'p, 'i) mesh_api \<Rightarrow> 'g viewer \<Rightarrow> gl_id \<Rightarrow> real list \<Rightarrow> 'g viewer \<times> error option" where
  "add_wireframe_' api st mesh_instance_id line_color =
     (case add_mesh_prefab st mesh_instance_id ''wireframe'' Map.empty Map.empty
             (Map.empty(''lineColor'' \<mapsto> Vector line_color)) False None of
        (st1, wireframe_mesh_prefab_index) \<Rightarrow>
          (case get_mesh_instance api st1 mesh_instance_id of
             Inl e \<Rightarrow> (st1, Some e)
           | Inr i \<Rightarrow>
               (fst (add_mesh_instance st1 wireframe_mesh_prefab_index (get_model_matrix api i)),
                None)))"

subsection \<open>Dispatch of a command (lines 420 to 422)\<close>

text \<open>\<open>getattr(self, event_type + "_")(*event[1:])\<close>: the routine named by the command.\<close>

fun dispatch :: "('g, 'p, 'i) mesh_api \<Rightarrow> event \<Rightarrow> 'g viewer \<Rightarrow> 'g viewer \<times> error option" where
  "dispatch api (Add_mesh cid vs fs) st = add_mesh_' api st cid vs fs"
| "dispatch api (Add_mesh_prefab prefab_id sh va fa un fill cf) st =
     add_mesh_prefab_' api st prefab_id sh va fa un fill cf"
| "dispatch api (Add_mesh_instance instance_id m) st = add_mesh_instance_' api st instance_id m"
| "dispatch api (Update_mesh_vertices cid vs) st = update_mesh_vertices_' api st cid vs"
| "dispatch api (Update_mesh_prefab_uniform prefab_id name v) st =
     update_mesh_prefab_uniform_' api st prefab_id name v"
| "dispatch api (Update_mesh_prefab_vertex_attribute prefab_id name v) st =
     update_mesh_prefab_vertex_attribute_' api st prefab_id name v"
| "dispatch api (Update_mesh_prefab_face_attribute prefab_id name v) st =
     update_mesh_prefab_face_attribute_' api st prefab_id name v"
| "dispatch api (Update_mesh_instance_model instance_id m) st =
     update_mesh_instance_model_' api st instance_id m"
| "dispatch api (Set_mesh_instance_visibility instance_id b) st =
     set_mesh_instance_visibility_' api st instance_id b"
| "dispatch api (Remove_mesh cid) st = remove_mesh_' st cid"
| "dispatch api (Remove_mesh_prefab prefab_id) st = remove_mesh_prefab_' api st prefab_id"
| "dispatch api (Remove_mesh_instance instance_id) st = remove_mesh_instance_' api st instance_id"
| "dispatch api Clear_all st = clear_all_' st"
| "dispatch api (Add_wireframe instance_id line_color) st = add_wireframe_' api st instance_id line_color"

subsection \<open>The mesh module, from the spec\<close>

text \<open>
  Modelled from the spec: the classes \<open>MeshGroup\<close>, \<open>GlMeshPrefab\<close> and \<open>GlMeshInstance\<close>
  (module \<open>mesh\<close>, not among the source files). The spec's data model: a prefab is one
  shading configuration (shader, a mapping of uniform name to value, a mapping of
  vertex-attribute name to array, one of face-attribute name to array, a fill flag)
  and may be built by copying another prefab's maps as a base, then overridden; an
  instance holds a model transform and a visibility flag; a mesh group aggregates one
  core with its prefabs and instances. A lookup of an identifier that does not exist
  fails (the spec's NotFoundError, Python's KeyError in the viewer's own lookups); an
  instance created under a prefab the group does not hold fails with
  InvalidReferenceError; removing a prefab removes its instances.
\<close>

record gl_mesh_prefab =
  prefab_shader :: shader
  prefab_uniforms :: uniforms
  prefab_vertex_attributes :: attributes
  prefab_face_attributes :: attributes
  prefab_fill :: bool

record gl_mesh_instance =
  instance_model_matrix :: "mat4 option"
  instance_visibility :: bool

record mesh_group =
  core_vertices :: "vec3 list"
  core_faces :: "int list list"
  prefabs :: "gl_id \<Rightarrow> gl_mesh_prefab option"
  instances :: "gl_id \<Rightarrow> gl_mesh_instance option"

text \<open>Modelled from the spec: lookup of a prefab or an instance of a group.\<close>

definition lookup :: "('k \<Rightarrow> 'v option) \<Rightarrow> 'k \<Rightarrow> error + 'v" where
  "lookup m k = (case m k of None \<Rightarrow> Inl KeyError | Some v \<Rightarrow> Inr v)"

text \<open>Modelled from the spec: a prefab is created from the base it copies (none, a
  prefab, or a prefab of the group named by its identifier), then overridden.\<close>

definition spec_add_prefab ::
  "mesh_group \<Rightarrow> gl_id \<Rightarrow> attributes \<Rightarrow> attributes \<Rightarrow> uniforms \<Rightarrow> shader \<Rightarrow> bool \<Rightarrow>
   (gl_id + gl_mesh_prefab) option \<Rightarrow> error + mesh_group" where
  "spec_add_prefab g prefab_id va fa un sh fill copy_from =
     bind (case copy_from of
             None \<Rightarrow> Inr None
           | Some (Inr p) \<Rightarrow> Inr (Some p)
           | Some (Inl c) \<Rightarrow> bind (lookup (prefabs g) c) (\<lambda>p. Inr (Some p))) (\<lambda>base.
       Inr (g\<lparr>prefabs := (prefabs g)(prefab_id \<mapsto>
              \<lparr>prefab_shader = sh,
               prefab_uniforms = (case base of None \<Rightarrow> un | Some p \<Rightarrow> prefab_uniforms p ++ un),
               prefab_vertex_attributes =
                 (case base of None \<Rightarrow> va | Some p \<Rightarrow> prefab_vertex_attributes p ++ va),
               prefab_face_attributes =
                 (case base of None \<Rightarrow> fa | Some p \<Rightarrow> prefab_face_attributes p ++ fa),
               prefab_fill = fill\<rparr>)\<rparr>))"

text \<open>Modelled from the spec: an instance belongs to a prefab of its group.\<close>

fun parent_prefab :: "gl_id \<Rightarrow> gl_id option" where
  "parent_prefab (GlMeshInstanceId parent n) = Some parent"
| "parent_prefab other = None"

definition spec_add_instance :: "mesh_group \<Rightarrow> gl_id \<Rightarrow> mat4 option \<Rightarrow> error + mesh_group" where
  "spec_add_instance g instance_id model_matrix =
     (case parent_prefab instance_id of
        None \<Rightarrow> Inl InvalidReferenceError
      | Some parent \<Rightarrow>
          (if prefabs g parent = None then Inl InvalidReferenceError
           else Inr (g\<lparr>instances := (instances g)(instance_id \<mapsto>
                  \<lparr>instance_model_matrix = model_matrix, instance_visibility = True\<rparr>)\<rparr>)))"

text \<open>Modelled from the spec: partial updates of one prefab or one instance.\<close>

definition update_prefab :: "mesh_group \<Rightarrow> gl_id \<Rightarrow> (gl_mesh_prefab \<Rightarrow> gl_mesh_prefab) \<Rightarrow> error + mesh_group" where
  "update_prefab g prefab_id f =
     bind (lookup (prefabs g) prefab_id) (\<lambda>p. Inr (g\<lparr>prefabs := (prefabs g)(prefab_id \<mapsto> f p)\<rparr>))"

definition update_instance ::
  "mesh_group \<Rightarrow> gl_id \<Rightarrow> (gl_mesh_instance \<Rightarrow> gl_mesh_instance) \<Rightarrow> error + mesh_group" where
  "update_instance g instance_id f =
     bind (lookup (instances g) instance_id)
       (\<lambda>i. Inr (g\<lparr>instances := (instances g)(instance_id \<mapsto> f i)\<rparr>))"

text \<open>Modelled from the spec: removing a prefab removes its instances; the core and
  the other prefabs stay.\<close>

definition spec_remove_prefab :: "mesh_group \<Rightarrow> gl_id \<Rightarrow> error + mesh_group" where
  "spec_remove_prefab g prefab_id =
     bind (lookup (prefabs g) prefab_id) (\<lambda>p.
       Inr (g\<lparr>prefabs := (prefabs g)(prefab_id := None),
              instances := (\<lambda>i. if parent_prefab i = Some prefab_id then None
                                else instances g i)\<rparr>))"

definition spec_remove_instance :: "mesh_group \<Rightarrow> gl_id \<Rightarrow> error + mesh_group" where
  "spec_remove_instance g instance_id =
     bind (lookup (instances g) instance_id) (\<lambda>i.
       Inr (g\<lparr>instances := (instances g)(instance_id := None)\<rparr>))"

text \<open>Modelled from the spec: the mesh module as the viewer calls it.\<close>

definition mesh_spec :: "(mesh_group, gl_mesh_prefab, gl_mesh_instance) mesh_api" where
  "mesh_spec =
     \<lparr>new_group = (\<lambda>vs fs. \<lparr>core_vertices = vs, core_faces = fs,
                              prefabs = Map.empty, instances = Map.empty\<rparr>),
      get_prefab = (\<lambda>g. lookup (prefabs g)),
      get_instance = (\<lambda>g. lookup (instances g)),
      add_prefab = spec_add_prefab,
      add_instance = spec_add_instance,
      update_vertices = (\<lambda>g vs. Inr (g\<lparr>core_vertices := vs\<rparr>)),
      update_uniform = (\<lambda>g prefab_id name v. update_prefab g prefab_id
         (\<lambda>p. p\<lparr>prefab_uniforms := (prefab_uniforms p)(name \<mapsto> v)\<rparr>)),
      update_prefab_vertex_attribute = (\<lambda>g prefab_id name v. update_prefab g prefab_id
         (\<lambda>p. p\<lparr>prefab_vertex_attributes := (prefab_vertex_attributes p)(name \<mapsto> v)\<rparr>)),
      update_prefab_face_attribute = (\<lambda>g prefab_id name v. update_prefab g prefab_id
         (\<lambda>p. p\<lparr>prefab_face_attributes := (prefab_face_attributes p)(name \<mapsto> v)\<rparr>)),
      set_model_matrix = (\<lambda>g instance_id m. update_instance g instance_id
         (\<lambda>i. i\<lparr>instance_model_matrix := m\<rparr>)),
      set_visibility = (\<lambda>g instance_id b. update_instance g instance_id
         (\<lambda>i. i\<lparr>instance_visibility := b\<rparr>)),
      remove_prefab = spec_remove_prefab,
      remove_instance = spec_remove_instance,
      get_model_matrix = instance_model_matrix,
      get_visibility = instance_visibility\<rparr>"

text \<open>The uniform \<open>name\<close> of the prefab \<open>prefab_id\<close>, read in the registry of a viewer
  over this mesh module.\<close>

definition uniform_of :: "mesh_group viewer \<Rightarrow> gl_id \<Rightarrow> string \<Rightarrow> uniform_value option" where
  "uniform_of st prefab_id name =
     (case mesh_groups st (core_id prefab_id) of
        None \<Rightarrow> None
      | Some g \<Rightarrow> (case prefabs g prefab_id of None \<Rightarrow> None | Some p \<Rightarrow> prefab_uniforms p name))"

subsection \<open>The viewer as constructed, and the order of application\<close>

text \<open>
  \<open>ViewerWidget.__init__\<close>, lines 52 to 73: no shader, no mesh group, empty queues, no
  picking arrays, index-draw distance 0. The default dictionary of
  \<open>display_point_cloud\<close> is empty when the class is defined, and the identifier
  counters start at 0. \<open>add_shaders\<close> (lines 80 to 98) fills \<open>self.shaders\<close> with one
  program per vertex-shader file, under the file's name.
\<close>

definition new_viewer :: "'g viewer" where
  "new_viewer =
     \<lparr>shaders = Map.empty, mesh_groups = Map.empty, mesh_events = [],
      vertices = None, faces = None, face_positions = None, face_normals = None,
      draw_indices_distance = 0, stdout = [],
      next_core_id = 0, next_prefab_id = 0, next_instance_id = 0,
      display_point_cloud_vertex_attributes = Map.empty\<rparr>"

fun add_shaders :: "'g viewer \<Rightarrow> string list \<Rightarrow> 'g viewer" where
  "add_shaders st [] = st"
| "add_shaders st (shader_name # files) =
     add_shaders (st\<lparr>shaders := (shaders st)(shader_name \<mapsto> ShaderProgram shader_name)\<rparr>) files"

text \<open>
  The claims' words for the order of application: the apply routines of the commands
  of a list, run one after the other from the first to the last, each on the state
  the one before it left; the first exception ends the run.
\<close>

fun apply_in_order ::
  "('g, 'p, 'i) mesh_api \<Rightarrow> event list \<Rightarrow> 'g viewer \<Rightarrow> 'g viewer \<times> error option" where
  "apply_in_order api [] st = (st, None)"
| "apply_in_order api (e # es) st =
     (case dispatch api e st of
        (st', Some err) \<Rightarrow> (st', Some err)
      | (st', None) \<Rightarrow> apply_in_order api es st')"

text \<open>The colour array that a queued \<open>add_mesh_prefab\<close> command carries under the
  vertex attribute \<open>vertexColor\<close>.\<close>

fun queued_vertex_color :: "event \<Rightarrow> vec3 list option" where
  "queued_vertex_color (Add_mesh_prefab prefab_id sh va fa un fill cf) = va ''vertexColor''"
| "queued_vertex_color e = None"

text \<open>
  Example states, for the concrete instances below: a viewer over the spec's mesh
  module with the shaders \<open>default\<close> and \<open>wireframe\<close> loaded and the command
  \<open>add_mesh\<close> of core 0 applied; and the same viewer after the command
  \<open>add_mesh_prefab\<close> of \<open>demo_prefab\<close> with the shader \<open>default\<close> was applied.
\<close>

definition demo_viewer :: "mesh_group viewer" where
  "demo_viewer =
     fst (add_mesh_' mesh_spec (add_shaders new_viewer [''default'', ''wireframe''])
            (GlMeshCoreId 0) [(0, 0, 0), (1, 0, 0), (0, 1, 0)] [[0, 1, 2]])"

definition demo_prefab :: gl_id where
  "demo_prefab = GlMeshPrefabId (GlMeshCoreId 0) 0"

definition demo_viewer_with_prefab :: "mesh_group viewer" where
  "demo_viewer_with_prefab =
     fst (add_mesh_prefab_' mesh_spec demo_viewer demo_prefab ''default''
            Map.empty Map.empty Map.empty True None)"

text \<open>The claims' words for the distance of a projected vertex to the cursor: the
  squared pixel differences, summed.\<close>

definition squared_distance :: "real \<times> real \<Rightarrow> vec4 \<Rightarrow> real" where
  "squared_distance cursor p = (px p - fst cursor)\<^sup>2 + (py p - snd cursor)\<^sup>2"

text \<open>
  The claims' words for the back-face test and for the set of labelled vertices: a
  face is visible iff the vector from the face centroid to the camera position,
  dotted with the face normal, is negative; the labelled vertices are those of at
  least one visible face, within \<open>in_range_mask\<close>, with projected depth below the
  threshold, other than the selected vertex.
\<close>

definition claimed_face_visible :: "vec3 \<Rightarrow> vec3 \<Rightarrow> vec3 \<Rightarrow> bool" where
  "claimed_face_visible camera centroid normal = (dot (vsub camera centroid) normal < 0)"

definition claimed_label_set ::
  "vec4 list \<Rightarrow> bool list \<Rightarrow> int list list \<Rightarrow> vec3 list \<Rightarrow> vec3 list \<Rightarrow> vec3 \<Rightarrow> real \<Rightarrow>
   int option \<Rightarrow> nat set" where
  "claimed_label_set pv irm fs fp fn cam thr sel =
     {i. i < length pv \<and>
         (\<exists>k < length fs. claimed_face_visible cam (fp ! k) (fn ! k) \<and>
            (\<exists>j \<in> set (fs ! k). np_index (length pv) j = Some i)) \<and>
         irm ! i \<and> pz (pv ! i) < thr \<and> sel \<noteq> Some (int i)}"

subsection \<open>The drain loop (lines 416 to 424)\<close>

text \<open>
  The loop takes the command at the head of the queue, runs its routine and goes on
  until \<open>get(block=False)\<close> finds the queue empty. Only \<open>Empty\<close> is caught: any other
  exception leaves the loop, with the rest of the queue in place. A routine may put
  commands itself (\<open>add_wireframe_\<close>), so the loop is not a recursion on the list; it
  ends because such a routine puts two commands that put none.
\<close>

fun weight :: "event \<Rightarrow> nat" where
  "weight (Add_wireframe instance_id line_color) = 3"
| "weight e = 1"

lemma update_group_events: "mesh_events (fst (update_group st i f)) = mesh_events st"
  by (simp add: update_group_def split: sum.splits)

lemma add_prefab_default_events:
  "mesh_events (fst (add_prefab_default api st pid va fa un fill cf)) = mesh_events st"
  by (simp add: add_prefab_default_def update_group_events split: sum.splits option.splits)

lemma add_mesh_prefab_'_events:
  "mesh_events (fst (add_mesh_prefab_' api st pid sh va fa un fill cf)) = mesh_events st"
  by (simp add: add_mesh_prefab_'_def add_prefab_default_events
      split: sum.splits option.splits error.splits)

lemma dispatch_weight:
  "sum_list (map weight (mesh_events (fst (dispatch api e st))))
     < sum_list (map weight (mesh_events st)) + weight e"
proof (cases e)
  case (Add_wireframe i c)
  then show ?thesis
    by (simp add: add_wireframe_'_def add_mesh_prefab_def add_mesh_instance_def put_def Let_def
        split: sum.splits prod.splits)
qed (simp_all add: add_mesh_'_def add_mesh_prefab_'_events add_mesh_instance_'_def
    update_group_events update_mesh_vertices_'_def update_mesh_prefab_uniform_'_def
    update_mesh_prefab_vertex_attribute_'_def update_mesh_prefab_face_attribute_'_def
    update_mesh_instance_model_'_def set_mesh_instance_visibility_'_def remove_mesh_'_def
    remove_mesh_prefab_'_def remove_mesh_instance_'_def clear_all_'_def split: option.splits)

lemma dispatch_decreases:
  assumes "(st', r) = dispatch api e (st\<lparr>mesh_events := queue\<rparr>)"
  shows "sum_list (map weight (mesh_events st')) < weight e + sum_list (map weight queue)"
proof -
  have "st' = fst (dispatch api e (st\<lparr>mesh_events := queue\<rparr>))"
    using assms by (metis fst_conv)
  then show ?thesis
    using dispatch_weight [of api e "st\<lparr>mesh_events := queue\<rparr>"] by simp
qed

function process_mesh_events ::
  "('g, 'p, 'i) mesh_api \<Rightarrow> 'g viewer \<Rightarrow> 'g viewer \<times> error option" where
  "process_mesh_events api st =
     (case mesh_events st of
        [] \<Rightarrow> (st, None)
      | e # queue \<Rightarrow>
          (case dispatch api e (st\<lparr>mesh_events := queue\<rparr>) of
             (st', Some err) \<Rightarrow> (st', Some err)
           | (st', None) \<Rightarrow> process_mesh_events api st'))"
  by pat_completeness auto
termination
  by (relation "measure (\<lambda>(api, st). sum_list (map weight (mesh_events st)))")
    (auto dest: dispatch_decreases)

declare process_mesh_events.simps [simp del]

subsection \<open>The draw loop of \<open>paintGL\<close> (lines 195 to 251)\<close>

text \<open>
  After the drain (line 179) \<open>paintGL\<close> goes through \<open>self.mesh_groups.values()\<close> and,
  in each group, through the triples (core, prefab, instance) that the group yields.
  An instance that is not visible is skipped (lines 197 and 198), and so is one whose
  prefab's shader is named \<open>wireframe\<close> while \<open>self.draw_wireframe\<close> is off (lines 199
  to 201). Lines 222 to 225 read the model matrix of the instance and, when it is
  None, store \<open>np.eye(4)\<close> in the instance: a write into an object of the registry.
  The calls to OpenGL are outside the model.

  The iteration of a \<open>MeshGroup\<close> and the method \<open>get_shader\<close> of a prefab belong to
  the module \<open>mesh\<close>, which is not among the source files: they are the parameters
  \<open>triples\<close> and \<open>get_shader\<close>. A triple names its instance by its identifier next to
  the object read, since the write goes to the instance that the group holds, and
  leaves the core out. \<open>keys\<close> is the order in which the dictionary yields its groups,
  and \<open>draw_wireframe\<close> the flag of the widget (True when it is constructed, line 57).
\<close>

fun shader_name_of :: "shader \<Rightarrow> string" where
  "shader_name_of (ShaderProgram n) = n"

text \<open>\<open>np.eye(4, dtype="f")\<close>.\<close>

definition eye4 :: mat4 where
  "eye4 = ((1, 0, 0, 0), (0, 1, 0, 0), (0, 0, 1, 0), (0, 0, 0, 1))"

definition draw_instance ::
  "('g, 'p, 'i) mesh_api \<Rightarrow> ('p \<Rightarrow> shader) \<Rightarrow> bool \<Rightarrow> 'g \<Rightarrow> gl_id \<times> 'p \<times> 'i \<Rightarrow> error + 'g" where
  "draw_instance api get_shader draw_wireframe g t =
     (case t of (instance_id, prefab, inst) \<Rightarrow>
        if \<not> get_visibility api inst then Inr g
        else if shader_name_of (get_shader prefab) = ''wireframe'' \<and> \<not> draw_wireframe then Inr g
        else if get_model_matrix api inst = None
             then set_model_matrix api g instance_id (Some eye4)
             else Inr g)"

fun draw_triples ::
  "('g, 'p, 'i) mesh_api \<Rightarrow> ('p \<Rightarrow> shader) \<Rightarrow> bool \<Rightarrow> 'g \<Rightarrow> (gl_id \<times> 'p \<times> 'i) list \<Rightarrow>
   'g \<times> error option" where
  "draw_triples api get_shader draw_wireframe g [] = (g, None)"
| "draw_triples api get_shader draw_wireframe g (t # ts) =
     (case draw_instance api get_shader draw_wireframe g t of
        Inl e \<Rightarrow> (g, Some e)
      | Inr g' \<Rightarrow> draw_triples api get_shader draw_wireframe g' ts)"

fun draw_loop ::
  "('g, 'p, 'i) mesh_api \<Rightarrow> ('g \<Rightarrow> (gl_id \<times> 'p \<times> 'i) list) \<Rightarrow> ('p \<Rightarrow> shader) \<Rightarrow> bool \<Rightarrow>
   nat list \<Rightarrow> 'g viewer \<Rightarrow> 'g viewer \<times> error option" where
  "draw_loop api triples get_shader draw_wireframe [] st = (st, None)"
| "draw_loop api triples get_shader draw_wireframe (k # ks) st =
     (case mesh_groups st k of
        None \<Rightarrow> draw_loop api triples get_shader draw_wireframe ks st
      | Some g \<Rightarrow>
          (case draw_triples api get_shader draw_wireframe g (triples g) of
             (g', Some e) \<Rightarrow> (st\<lparr>mesh_groups := (mesh_groups st)(k \<mapsto> g')\<rparr>, Some e)
           | (g', None) \<Rightarrow>
               draw_loop api triples get_shader draw_wireframe ks
                 (st\<lparr>mesh_groups := (mesh_groups st)(k \<mapsto> g')\<rparr>)))"

text \<open>
  Modelled from the spec: a mesh group yields a triple for every live instance, in
  the order of insertion. The record \<open>mesh_group\<close> keeps no order, so the identifiers
  are given in the order they were inserted, as the list \<open>inserted\<close>; an identifier
  whose instance or whose prefab the group no longer holds yields nothing.
\<close>

definition spec_triples ::
  "gl_id list \<Rightarrow> mesh_group \<Rightarrow> (gl_id \<times> gl_mesh_prefab \<times> gl_mesh_instance) list" where
  "spec_triples inserted g =
     concat (map (\<lambda>i. case instances g i of
                         None \<Rightarrow> []
                       | Some inst \<Rightarrow>
                           (case parent_prefab i of
                              None \<Rightarrow> []
                            | Some parent \<Rightarrow>
                                (case prefabs g parent of
                                   None \<Rightarrow> []
                                 | Some p \<Rightarrow> [(i, p, inst)]))) inserted)"

text \<open>The model matrix of the instance \<open>instance_id\<close>, read in the registry of a viewer
  over the spec's mesh module.\<close>

definition model_matrix_of :: "mesh_group viewer \<Rightarrow> gl_id \<Rightarrow> mat4 option" where
  "model_matrix_of st instance_id =
     (case mesh_groups st (core_id instance_id) of
        None \<Rightarrow> None
      | Some g \<Rightarrow>
          (case instances g instance_id of None \<Rightarrow> None | Some i \<Rightarrow> instance_model_matrix i))"

subsection \<open>Identifiers issued so far\<close>

text \<open>
  An identifier is below the counters of a state when its ordinal is below the counter
  of its class: the producers issue the value of the counter and advance it, so every
  identifier issued up to a state is below its counters. \<open>cores_below_counter\<close> says
  the same of the registry and of the queue: every key of \<open>self.mesh_groups\<close>, and
  every core that a queued \<open>add_mesh\<close> command will add, is below the core counter.
\<close>

fun below_counter :: "'g viewer \<Rightarrow> gl_id \<Rightarrow> bool" where
  "below_counter st (GlMeshCoreId n) = (n < next_core_id st)"
| "below_counter st (GlMeshPrefabId parent n) = (n < next_prefab_id st)"
| "below_counter st (GlMeshInstanceId parent n) = (n < next_instance_id st)"

fun puts_core :: "nat \<Rightarrow> event \<Rightarrow> bool" where
  "puts_core n (Add_mesh cid vs fs) = (core_id cid < n)"
| "puts_core n e = True"

definition cores_below_counter :: "'g viewer \<Rightarrow> bool" where
  "cores_below_counter st =
     ((\<forall>k. mesh_groups st k \<noteq> None \<longrightarrow> k < next_core_id st) \<and>
      list_all (puts_core (next_core_id st)) (mesh_events st))"

text \<open>
  An example scene, built the way a client builds one: on a viewer with the shaders
  \<open>default\<close> and \<open>wireframe\<close>, the producers \<open>add_mesh\<close> (a triangle),
  \<open>add_mesh_prefab\<close> (shader \<open>default\<close>) and \<open>add_mesh_instance\<close> (with the model
  matrix \<open>m\<close>) are called, and one frame drains the queue over the spec's mesh
  module. The identifiers issued are core 0, \<open>demo_prefab\<close> and \<open>demo_instance\<close>.
\<close>

definition demo_instance :: gl_id where
  "demo_instance = GlMeshInstanceId demo_prefab 0"

definition demo_scene :: "mat4 option \<Rightarrow> mesh_group viewer" where
  "demo_scene m =
     fst (process_mesh_events mesh_spec
            (fst (add_mesh_instance
               (fst (add_mesh_prefab
                  (fst (add_mesh (add_shaders new_viewer [''default'', ''wireframe''])
                          [(0, 0, 0), (1, 0, 0), (0, 1, 0)] [[0, 1, 2]]))
                  (GlMeshCoreId 0) ''default'' Map.empty Map.empty Map.empty True None))
               demo_prefab m)))"

section \<open>Properties of the intersection test\<close>

lemma bind_Inr: "bind (Inr a) f = f a"
  by (simp add: bind_def)

lemma bind_Inl: "bind (Inl e) f = Inl e"
  by (simp add: bind_def)

lemmas numpy_defs = bind_def np_index_def column_def broadcast_def mask_select_def
  mask_assign_def np_any_def gather_def

lemmas face_defs = face_det_def u_numerator_def v_numerator_def t_numerator_def
  bary_u_def bary_v_def ray_t_def face_hit_def

lemma take_rows_length: "take_rows xs idx = Inr ys \<Longrightarrow> length ys = length idx"
  by (induction idx arbitrary: ys) (auto simp: bind_def split: option.splits sum.splits)

lemma gather_length: "gather vs fs j = Inr A \<Longrightarrow> length A = length fs"
  by (auto simp: gather_def column_def bind_def dest: take_rows_length split: if_splits)

lemma assign_masked_all:
  "length ws = length xs \<Longrightarrow> assign_masked xs (replicate (length xs) True) ws = ws"
  by (induction xs arbitrary: ws) (auto simp: length_Suc_conv)

lemma mask_select_all: "length xs = n \<Longrightarrow> mask_select xs (replicate n True) = Inr xs"
proof -
  assume "length xs = n"
  moreover have "filter snd (zip xs (replicate (length xs) True)) = zip xs (replicate (length xs) True)"
    by (auto simp: filter_id_conv dest: set_zip_rightD)
  ultimately show ?thesis by (auto simp add: mask_select_def)
qed

lemma mask_assign_all:
  "length xs = n \<Longrightarrow> length vals = n \<Longrightarrow> mask_assign xs (replicate n True) vals = Inr vals"
  using assign_masked_all [of vals xs] by (auto simp add: mask_assign_def)

lemma broadcast_same: "length xs = length ys \<Longrightarrow> broadcast f xs ys = Inr (map2 f xs ys)"
  by (simp add: broadcast_def)

text \<open>
  When the determinant of every face is non-zero, the mask selects every face, all
  arrays have one entry per face, and the result is line 174 face by face.
\<close>

lemma intersect_triangles_all_valid:
  assumes gA: "gather vs fs 0 = Inr A"
    and gB: "gather vs fs 1 = Inr B"
    and gC: "gather vs fs 2 = Inr C"
    and ne: "fs \<noteq> []"
    and nz: "\<forall>i < length fs. face_det ray_start ray_end (A ! i) (B ! i) (C ! i) \<noteq> 0"
  shows "intersect_triangles ray_start ray_end vs fs =
           Inr (map (\<lambda>(a, b, c). face_hit ray_start ray_end a b c) (zip A (zip B C)))"
proof -
  let ?n = "length fs"
  let ?ABC = "zip A (zip B C)"
  let ?det = "map (\<lambda>(a, b, c). face_det ray_start ray_end a b c) ?ABC"
  have lA: "length A = ?n" and lB: "length B = ?n" and lC: "length C = ?n"
    using gA gB gC by (auto dest: gather_length)
  have valid: "map (\<lambda>d. d \<noteq> 0) ?det = replicate ?n True"
  proof (rule nth_equalityI)
    show "length (map (\<lambda>d. d \<noteq> 0) ?det) = length (replicate ?n True)"
      using lA lB lC by simp
  next
    fix i assume "i < length (map (\<lambda>d. d \<noteq> 0) ?det)"
    then have i: "i < ?n" using lA lB lC by simp
    then show "map (\<lambda>d. d \<noteq> 0) ?det ! i = replicate ?n True ! i"
      using nz lA lB lC by simp
  qed
  have any: "np_any (replicate ?n True)"
    using ne by (cases fs) (simp_all add: np_any_def)
  show ?thesis
    unfolding intersect_triangles_def gA gB gC bind_Inr Let_def valid
    using any lA lB lC
    apply (simp add: mask_select_all mask_assign_all broadcast_same bind_Inr)
    apply (rule nth_equalityI)
     apply (simp; fail)
    apply (simp add: face_hit_def bary_u_def bary_v_def ray_t_def)
    done
qed

text \<open>
  C10. For every ray and every non-empty face array whose first three columns index
  the vertex array (the three gathers of lines 154 to 156 succeed) and whose faces all
  have a non-zero determinant, \<open>intersect_triangles\<close> returns, and returns a Boolean
  array with exactly one entry per face: the masked arrays of lines 168 to 174 all
  have the length of the face array.
\<close>

theorem intersect_triangles_total:
  assumes "gather vs fs 0 = Inr A"
    and "gather vs fs 1 = Inr B"
    and "gather vs fs 2 = Inr C"
    and "fs \<noteq> []"
    and "\<forall>i < length fs. face_det ray_start ray_end (A ! i) (B ! i) (C ! i) \<noteq> 0"
  shows "\<exists>bs. intersect_triangles ray_start ray_end vs fs = Inr bs \<and> length bs = length fs"
proof -
  have "length (zip A (zip B C)) = length fs"
    using gather_length [OF assms(1)] gather_length [OF assms(2)] gather_length [OF assms(3)]
    by simp
  then show ?thesis
    using intersect_triangles_all_valid [OF assms] by simp
qed

theorem intersect_triangles_total_witness:
  "\<exists>bs. intersect_triangles (1 / 4, 1 / 4, 0) (1 / 4, 1 / 4, 1)
          [(0, 0, 1 / 2), (1, 0, 1 / 2), (0, 1, 1 / 2)] [[0, 2, 1], [0, 1, 2]] = Inr bs \<and>
        length bs = length [[0, 2, 1], [0, 1, 2 :: int]]"
proof (rule intersect_triangles_total)
  show "gather [(0, 0, 1 / 2), (1, 0, 1 / 2), (0, 1, 1 / 2)] [[0, 2, 1], [0, 1, 2]] 0 =
          Inr [(0, 0, 1 / 2), (0, 0, 1 / 2)]"
    by (simp add: numpy_defs)
  show "gather [(0, 0, 1 / 2), (1, 0, 1 / 2), (0, 1, 1 / 2)] [[0, 2, 1], [0, 1, 2]] 1 =
          Inr [(0, 1, 1 / 2), (1, 0, 1 / 2)]"
    by (simp add: numpy_defs)
  show "gather [(0, 0, 1 / 2), (1, 0, 1 / 2), (0, 1, 1 / 2)] [[0, 2, 1], [0, 1, 2]] 2 =
          Inr [(1, 0, 1 / 2), (0, 1, 1 / 2)]"
    by (simp add: numpy_defs)
  show "[[0, 2, 1], [0, 1, 2 :: int]] \<noteq> []" by simp
  show "\<forall>i < length [[0, 2, 1], [0, 1, 2 :: int]].
          face_det (1 / 4, 1 / 4, 0) (1 / 4, 1 / 4, 1)
            ([(0, 0, 1 / 2), (0, 0, 1 / 2)] ! i) ([(0, 1, 1 / 2), (1, 0, 1 / 2)] ! i)
            ([(1, 0, 1 / 2), (0, 1, 1 / 2)] ! i) \<noteq> 0"
    by (simp add: face_det_def less_Suc_eq)
qed

text \<open>
  C3, as the claim states it: for the single triangle with projected vertices
  (0,0,0.5), (1,0,0.5), (0,1,0.5), in this order, and the cursor ray through pixel
  (0.25,0.25), the test returns false. The barycentric coordinates are in range
  (\<open>u = v = 0.25\<close>), but the determinant is -1, below the threshold of line 174.
\<close>

theorem unit_triangle_listed_order_not_hit:
  "intersect_triangles (1 / 4, 1 / 4, 0) (1 / 4, 1 / 4, 1)
     [(0, 0, 1 / 2), (1, 0, 1 / 2), (0, 1, 1 / 2)] [[0, 1, 2]] = Inr [False]"
  by (simp add: intersect_triangles_def numpy_defs face_defs)

text \<open>
  C3, amended. The same three vertices with the face listing them in the opposite
  winding, \<open>[0, 2, 1]\<close>, that is A = (0,0,0.5), B = (0,1,0.5), C = (1,0,0.5): the
  determinant is 1; for the cursor ray through pixel (0.25,0.25) the test returns true
  with \<open>u = v = 0.25\<close>, so \<open>u, v \<ge> 0\<close> and \<open>u + v \<le> 1\<close>; for the ray through pixel
  (0.9,0.9) it returns false. In the listed order \<open>[0, 1, 2]\<close> the determinant is -1 and
  the test returns false for both rays.
\<close>

theorem unit_triangle_picking:
  "intersect_triangles (1 / 4, 1 / 4, 0) (1 / 4, 1 / 4, 1)
     [(0, 0, 1 / 2), (1, 0, 1 / 2), (0, 1, 1 / 2)] [[0, 2, 1]] = Inr [True] \<and>
   face_det (1 / 4, 1 / 4, 0) (1 / 4, 1 / 4, 1) (0, 0, 1 / 2) (0, 1, 1 / 2) (1, 0, 1 / 2) = 1 \<and>
   bary_u (1 / 4, 1 / 4, 0) (1 / 4, 1 / 4, 1) (0, 0, 1 / 2) (0, 1, 1 / 2) (1, 0, 1 / 2) = 1 / 4 \<and>
   bary_v (1 / 4, 1 / 4, 0) (1 / 4, 1 / 4, 1) (0, 0, 1 / 2) (0, 1, 1 / 2) (1, 0, 1 / 2) = 1 / 4 \<and>
   intersect_triangles (9 / 10, 9 / 10, 0) (9 / 10, 9 / 10, 1)
     [(0, 0, 1 / 2), (1, 0, 1 / 2), (0, 1, 1 / 2)] [[0, 2, 1]] = Inr [False] \<and>
   face_det (1 / 4, 1 / 4, 0) (1 / 4, 1 / 4, 1) (0, 0, 1 / 2) (1, 0, 1 / 2) (0, 1, 1 / 2) = - 1 \<and>
   intersect_triangles (1 / 4, 1 / 4, 0) (1 / 4, 1 / 4, 1)
     [(0, 0, 1 / 2), (1, 0, 1 / 2), (0, 1, 1 / 2)] [[0, 1, 2]] = Inr [False] \<and>
   intersect_triangles (9 / 10, 9 / 10, 0) (9 / 10, 9 / 10, 1)
     [(0, 0, 1 / 2), (1, 0, 1 / 2), (0, 1, 1 / 2)] [[0, 1, 2]] = Inr [False]"
  by (simp add: intersect_triangles_def numpy_defs face_defs)

text \<open>
  C4, at a failing input: two faces over the vertices (0,0,0.5), (1,0,0.5), (0,1,0.5).
  The face \<open>[0, 2, 1]\<close> meets every condition of the claim for the ray through pixel
  (0.25,0.25); the face \<open>[0, 0, 1]\<close> repeats a vertex, so its determinant is 0. The
  mask of line 164 then selects one of two faces: \<open>inv_det\<close> has one entry, \<open>u\<close>, \<open>v\<close>
  and \<open>t\<close> have two, and the assignment of line 174 raises ValueError instead of
  marking the first face.
\<close>

theorem intersect_triangles_zero_det_raises:
  "face_hit (1 / 4, 1 / 4, 0) (1 / 4, 1 / 4, 1) (0, 0, 1 / 2) (0, 1, 1 / 2) (1, 0, 1 / 2) \<and>
   face_det (1 / 4, 1 / 4, 0) (1 / 4, 1 / 4, 1) (0, 0, 1 / 2) (0, 0, 1 / 2) (1, 0, 1 / 2) = 0 \<and>
   intersect_triangles (1 / 4, 1 / 4, 0) (1 / 4, 1 / 4, 1)
     [(0, 0, 1 / 2), (1, 0, 1 / 2), (0, 1, 1 / 2)] [[0, 2, 1], [0, 0, 1]] =
     Inl (ValueError ''cannot assign input values to the output values where the mask is true'')"
  by (simp add: intersect_triangles_def numpy_defs face_defs)

section \<open>Properties of the overlay\<close>

text \<open>
  C2, at a failing input: one face \<open>[0, 2, 1]\<close> over the projected vertices (0,0),
  (10,0) and (0,10), all at depth 0.5, and the cursor at pixel (4,3), inside the
  face. Lines 301 to 303 select vertex 2, at (0,10): the differences -4 and 7 sum to
  3, whose square 9 is the least value. The summed squared distance of vertex 2 is
  65, the largest of the three; the vertex closest to the cursor is vertex 0, at
  summed squared distance 25.
\<close>

theorem pick_squares_the_sum:
  "pick (4, 3) [(0, 0, 1 / 2, 1), (10, 0, 1 / 2, 1), (0, 10, 1 / 2, 1)] [[0, 2, 1]] =
     Inr (Some ([0, 2, 1], 2)) \<and>
   cursor_distance (4, 3) (0, 10, 1 / 2, 1) = 9 \<and>
   cursor_distance (4, 3) (0, 0, 1 / 2, 1) = 49 \<and>
   squared_distance (4, 3) (0, 10, 1 / 2, 1) = 65 \<and>
   squared_distance (4, 3) (10, 0, 1 / 2, 1) = 45 \<and>
   squared_distance (4, 3) (0, 0, 1 / 2, 1) = 25"
  by (simp add: pick_def intersect_triangles_def numpy_defs face_defs face_depth_def mean_def
      argmin_def cursor_distance_def squared_distance_def power2_eq_square)

lemma np_index_less: "np_index n j = Some k \<Longrightarrow> k < n"
  by (auto simp: np_index_def split: if_splits)

lemma set_true_spec:
  assumes "list_all (\<lambda>j. np_index (length m) j \<noteq> None) idx"
  shows "\<exists>m'. set_true m idx = Inr m' \<and> length m' = length m \<and>
           (\<forall>i < length m. m' ! i = (m ! i \<or> (\<exists>j \<in> set idx. np_index (length m) j = Some i)))"
  using assms
proof (induction idx arbitrary: m)
  case Nil
  then show ?case by simp
next
  case (Cons j idx)
  from Cons.prems obtain k where k: "np_index (length m) j = Some k" by auto
  then have kl: "k < length m" by (rule np_index_less)
  have "list_all (\<lambda>j. np_index (length (m[k := True])) j \<noteq> None) idx"
    using Cons.prems by simp
  from Cons.IH [OF this] obtain m' where m': "set_true (m[k := True]) idx = Inr m'"
    "length m' = length m"
    "\<forall>i < length m. m' ! i = ((m[k := True]) ! i \<or> (\<exists>j \<in> set idx. np_index (length m) j = Some i))"
    by auto
  have "\<forall>i < length m. m' ! i = (m ! i \<or> (\<exists>j' \<in> set (j # idx). np_index (length m) j' = Some i))"
    using m'(3) k kl by (auto simp: nth_list_update)
  then show ?case using m'(1,2) k by simp
qed

lemma mask_select_nth:
  assumes "length msk = length xs"
  shows "mask_select xs msk = Inr (map ((!) xs) (filter ((!) msk) [0 ..< length xs]))"
proof -
  have "zip xs msk = map (\<lambda>i. (xs ! i, msk ! i)) [0 ..< length xs]"
    using assms by (intro nth_equalityI) simp_all
  then have "map fst (filter snd (zip xs msk)) = map ((!) xs) (filter ((!) msk) [0 ..< length xs])"
    by (simp add: filter_map comp_def)
  then show ?thesis using assms by (simp add: mask_select_def)
qed

lemma mask_select_map:
  "mask_select xs (map P xs) = Inr (filter P xs)"
proof -
  have "map fst (filter snd (zip xs (map P xs))) = filter P xs"
    by (induction xs) auto
  then show ?thesis by (simp add: mask_select_def)
qed

lemma visible_faces_set:
  assumes "length vis = length fs"
  shows "set (concat (map fst (filter snd (zip fs vis)))) = {j. \<exists>k < length fs. vis ! k \<and> j \<in> set (fs ! k)}"
proof -
  have "set (map fst (filter snd (zip fs vis))) = {fs ! k | k. k < length fs \<and> vis ! k}"
    using assms by (force simp: set_zip)
  then show ?thesis by auto
qed

text \<open>
  The labelling step on its own (lines 322 to 342), for any selection: with a positive
  threshold, one face position and one face normal per face, a mask as long as the
  vertex array and face entries that numpy accepts as indices of it, the step returns
  each index at most once, and the indices it returns are those of the vertices that a
  visible face reaches, within the mask, nearer than the threshold, other than the
  selected index.
\<close>

lemma label_indices_exact:
  assumes thr: "0 < thr"
    and lfp: "length fp = length fs"
    and lfn: "length fn = length fs"
    and lirm: "length irm = length pv"
    and idx: "\<forall>f \<in> set fs. \<forall>j \<in> set f. np_index (length pv) j \<noteq> None"
  shows "\<exists>ls. label_indices pv irm fs (Some fp) (Some fn) cam thr sel = Inr ls \<and>
           distinct ls \<and>
           set ls = {i. i < length pv \<and>
                        (\<exists>k < length fs. face_visible cam (fp ! k) (fn ! k) \<and>
                           (\<exists>j \<in> set (fs ! k). np_index (length pv) j = Some i)) \<and>
                        irm ! i \<and> pz (pv ! i) < thr \<and> sel \<noteq> Some (int i)}"
proof -
  let ?n = "length pv"
  let ?vis = "map2 (face_visible cam) fp fn"
  let ?vf = "map fst (filter snd (zip fs ?vis))"
  have lvis: "length ?vis = length fs" using lfp lfn by simp
  have b: "broadcast (face_visible cam) fp fn = Inr ?vis"
    using lfp lfn by (simp add: broadcast_def)
  have sel_faces: "mask_select fs ?vis = Inr ?vf"
    using lvis by (simp add: mask_select_def)
  have vfs: "set (concat ?vf) = {j. \<exists>k < length fs. ?vis ! k \<and> j \<in> set (fs ! k)}"
    using visible_faces_set [OF lvis] .
  have "list_all (\<lambda>j. np_index (length (replicate (length irm) False)) j \<noteq> None)
          (np_unique (concat ?vf))"
    using idx lirm vfs by (auto simp: list_all_iff np_unique_def)
  from set_true_spec [OF this] obtain vm where
    vm: "set_true (replicate (length irm) False) (np_unique (concat ?vf)) = Inr vm"
    and lvm: "length vm = ?n"
    and vm_nth: "\<forall>i < ?n. vm ! i = (\<exists>j \<in> set (concat ?vf). np_index ?n j = Some i)"
    using lirm by (auto simp: np_unique_def)
  let ?av = "map2 (\<and>) vm irm"
  let ?I = "filter ((!) ?av) [0 ..< ?n]"
  have lav: "length ?av = ?n" using lvm lirm by simp
  have s1: "mask_select pv ?av = Inr (map ((!) pv) ?I)"
    using mask_select_nth [of ?av pv] lav by simp
  have s2: "mask_select [0 ..< ?n] ?av = Inr ?I"
  proof -
    have "map ((!) [0 ..< ?n]) ?I = ?I"
      by (rule map_idI) simp
    then show ?thesis using mask_select_nth [of ?av "[0 ..< ?n]"] lav by simp
  qed
  let ?ls = "filter (\<lambda>i. sel \<noteq> Some (int i)) (filter (\<lambda>i. pz (pv ! i) < thr) ?I)"
  have res: "label_indices pv irm fs (Some fp) (Some fn) cam thr sel = Inr ?ls"
    unfolding label_indices_def using thr
    by (simp add: b sel_faces vm s1 s2 mask_select_map bind_Inr Let_def comp_def)
  have vis_nth: "\<And>k. k < length fs \<Longrightarrow> ?vis ! k = face_visible cam (fp ! k) (fn ! k)"
    using lfp lfn by simp
  have vm_faces: "vm ! i = (\<exists>k < length fs. face_visible cam (fp ! k) (fn ! k) \<and>
                     (\<exists>j \<in> set (fs ! k). np_index ?n j = Some i))" if "i < ?n" for i
  proof -
    have "vm ! i = (\<exists>j \<in> {j. \<exists>k < length fs. ?vis ! k \<and> j \<in> set (fs ! k)}. np_index ?n j = Some i)"
      using vm_nth that unfolding vfs by blast
    also have "\<dots> = (\<exists>k < length fs. ?vis ! k \<and> (\<exists>j \<in> set (fs ! k). np_index ?n j = Some i))"
      by blast
    also have "\<dots> = (\<exists>k < length fs. face_visible cam (fp ! k) (fn ! k) \<and>
                     (\<exists>j \<in> set (fs ! k). np_index ?n j = Some i))"
      using vis_nth by blast
    finally show ?thesis .
  qed
  have av_nth: "?av ! i = (vm ! i \<and> irm ! i)" if "i < ?n" for i
    using that lvm lirm by simp
  have "set ?ls = {i. i < ?n \<and> ?av ! i \<and> pz (pv ! i) < thr \<and> sel \<noteq> Some (int i)}"
    by auto
  also have "\<dots> = {i. i < ?n \<and> (vm ! i \<and> irm ! i) \<and> pz (pv ! i) < thr \<and> sel \<noteq> Some (int i)}"
    using av_nth by blast
  also have "\<dots> = {i. i < ?n \<and> (\<exists>k < length fs. face_visible cam (fp ! k) (fn ! k) \<and>
                           (\<exists>j \<in> set (fs ! k). np_index ?n j = Some i)) \<and>
                        irm ! i \<and> pz (pv ! i) < thr \<and> sel \<noteq> Some (int i)}"
    using vm_faces by blast
  finally have "set ?ls = {i. i < ?n \<and> (\<exists>k < length fs. face_visible cam (fp ! k) (fn ! k) \<and>
                           (\<exists>j \<in> set (fs ! k). np_index ?n j = Some i)) \<and>
                        irm ! i \<and> pz (pv ! i) < thr \<and> sel \<noteq> Some (int i)}" .
  moreover have "distinct ?ls" by simp
  ultimately show ?thesis using res by blast
qed


lemma argmin_from_bound:
  "best < i \<Longrightarrow> argmin_from best m i xs < i + length xs"
proof (induction xs arbitrary: best m i)
  case Nil
  then show ?case by simp
next
  case (Cons x xs)
  have "argmin_from i x (Suc i) xs < Suc i + length xs"
    using Cons.IH [of i "Suc i" x] by simp
  moreover have "argmin_from best m (Suc i) xs < Suc i + length xs"
    using Cons.IH [of best "Suc i" m] Cons.prems by simp
  ultimately show ?case by simp
qed

lemma argmin_less: "xs \<noteq> [] \<Longrightarrow> argmin xs < length xs"
  using argmin_from_bound [of 0 1] by (cases xs) (auto simp: argmin_def)

lemma traverse_length: "traverse f xs = Inr ys \<Longrightarrow> length ys = length xs"
  by (induction xs arbitrary: ys) (auto simp: bind_def split: sum.splits)

lemma np_index_nonneg: "0 \<le> j \<Longrightarrow> j < int n \<Longrightarrow> np_index n j = Some i \<longleftrightarrow> j = int i"
  by (auto simp: np_index_def)

lemma pick_selected_in_face:
  assumes "pick cursor pv fs = Inr (Some (t, v))"
  shows "t \<in> set fs \<and> v \<in> set t"
proof -
  from assms obtain ints where ints: "intersect_triangles (fst cursor, snd cursor, 0)
      (fst cursor, snd cursor, 1) (map xyz pv) fs = Inr ints"
    by (auto simp: pick_def bind_def split: sum.splits)
  have any: "np_any ints"
    using assms ints by (auto simp: pick_def bind_def split: if_splits)
  from assms ints any obtain cands where cands: "mask_select fs ints = Inr cands"
    by (auto simp: pick_def bind_def split: sum.splits)
  from assms ints any cands obtain depths where
    depths: "traverse (face_depth pv) cands = Inr depths"
    by (auto simp: pick_def bind_def split: sum.splits)
  from assms ints any cands depths obtain ps where
    ps: "take_rows pv (cands ! argmin depths) = Inr ps"
    and t: "t = cands ! argmin depths"
    and v: "v = t ! argmin (map (cursor_distance cursor) ps)"
    by (auto simp: pick_def bind_def Let_def split: sum.splits)
  have len: "length ints = length fs" and cs: "cands = map fst (filter snd (zip fs ints))"
    using cands by (auto simp: mask_select_def split: if_splits)
  have "cands \<noteq> []"
  proof -
    from any obtain k where "k < length ints" "ints ! k"
      by (auto simp: np_any_def list_ex_iff in_set_conv_nth)
    then have "(fs ! k, ints ! k) \<in> set (zip fs ints)"
      using len by (auto simp: set_zip)
    then have "fs ! k \<in> set cands" using \<open>ints ! k\<close> unfolding cs by force
    then show ?thesis by auto
  qed
  moreover have ld: "length depths = length cands"
    using traverse_length [OF depths] .
  ultimately have "depths \<noteq> []" by auto
  then have "argmin depths < length cands"
    using argmin_less [of depths] ld by simp
  then have tin: "t \<in> set cands" using t by simp
  then have tfs: "t \<in> set fs" unfolding cs by (auto dest: set_zip_leftD)
  have col: "list_all (\<lambda>row. 0 < length row) fs"
    using ints by (auto simp: intersect_triangles_def gather_def column_def bind_def
        split: sum.splits if_splits)
  then have "t \<noteq> []" using tfs by (auto simp: list_all_iff)
  then have "ps \<noteq> []" using take_rows_length [OF ps [folded t]] by auto
  then have "argmin (map (cursor_distance cursor) ps) < length t"
    using argmin_less [of "map (cursor_distance cursor) ps"] take_rows_length [OF ps [folded t]]
    by auto
  then have "v \<in> set t" using v by simp
  then show ?thesis using tfs by simp
qed

lemma pz_pixels: "pz (to_pixels w h (to_unit p)) = pz p"
  by (cases p) simp

text \<open>
  C7, amended. In a frame that has its vertex array and \<open>mvp_matrix\<close>, one face
  position and one face normal per face, face entries that are non-negative indices
  of the vertex array, a positive index-draw-distance threshold, and whose picking
  step returns (with a selection or with none), the overlay returns the selection
  and labels each vertex at most once; the labelled vertices are exactly those that
  belong to at least one visible face, project into the canonical range
  (\<open>in_range_mask\<close>), have projected depth below the threshold and are not the selected
  vertex. A face is visible iff the vector from the camera position to the face
  position (line 326: face position minus camera position), dotted with the face
  normal, is negative. A selected vertex is an entry of a face, hence an index of the
  vertex array.
\<close>

theorem paint_overlay_labels:
  assumes thr: "0 < thr"
    and lfp: "length fp = length fs"
    and lfn: "length fn = length fs"
    and idx: "\<forall>f \<in> set fs. \<forall>j \<in> set f. 0 \<le> j \<and> j < int (length vs)"
    and pk: "pick cursor (map (to_pixels w h) (map (\<lambda>v. to_unit (row_times v mvp)) vs)) fs =
               Inr selected"
  shows "\<exists>ls. paint_overlay (Some vs) fs (Some fp) (Some fn) (Some mvp) w h cursor cam thr =
                 Inr (selected, ls) \<and>
              distinct ls \<and>
              set ls = {i. i < length vs \<and>
                           (\<exists>k < length fs. face_visible cam (fp ! k) (fn ! k) \<and> int i \<in> set (fs ! k)) \<and>
                           in_range (to_unit (row_times (vs ! i) mvp)) \<and>
                           pz (row_times (vs ! i) mvp) < thr \<and>
                           map_option snd selected \<noteq> Some (int i)} \<and>
              (\<forall>t v. selected = Some (t, v) \<longrightarrow>
                 t \<in> set fs \<and> v \<in> set t \<and> 0 \<le> v \<and> v < int (length vs))"
proof -
  let ?unit = "map (\<lambda>v. to_unit (row_times v mvp)) vs"
  let ?pv = "map (to_pixels w h) ?unit"
  let ?irm = "map in_range ?unit"
  let ?sel = "map_option snd selected"
  have idx': "\<forall>f \<in> set fs. \<forall>j \<in> set f. np_index (length ?pv) j \<noteq> None"
    using idx by (auto simp: np_index_def)
  from label_indices_exact [OF thr lfp lfn _ idx', of ?irm cam ?sel]
  obtain ls where ls: "label_indices ?pv ?irm fs (Some fp) (Some fn) cam thr ?sel = Inr ls"
    and d: "distinct ls"
    and s: "set ls = {i. i < length ?pv \<and>
                        (\<exists>k < length fs. face_visible cam (fp ! k) (fn ! k) \<and>
                           (\<exists>j \<in> set (fs ! k). np_index (length ?pv) j = Some i)) \<and>
                        ?irm ! i \<and> pz (?pv ! i) < thr \<and> ?sel \<noteq> Some (int i)}"
    by auto
  have mem: "(\<exists>j \<in> set (fs ! k). np_index (length ?pv) j = Some i) \<longleftrightarrow> int i \<in> set (fs ! k)"
    if "k < length fs" for k i
  proof -
    have "fs ! k \<in> set fs" using that by simp
    then have "\<forall>j \<in> set (fs ! k). 0 \<le> j \<and> j < int (length vs)"
      using idx by blast
    then show ?thesis by (auto simp: np_index_nonneg)
  qed
  have "set ls = {i. i < length vs \<and>
                     (\<exists>k < length fs. face_visible cam (fp ! k) (fn ! k) \<and> int i \<in> set (fs ! k)) \<and>
                     in_range (to_unit (row_times (vs ! i) mvp)) \<and>
                     pz (row_times (vs ! i) mvp) < thr \<and> ?sel \<noteq> Some (int i)}"
    unfolding s using mem by (auto simp: pz_pixels)
  moreover have "paint_overlay (Some vs) fs (Some fp) (Some fn) (Some mvp) w h cursor cam thr =
      Inr (selected, ls)"
    unfolding paint_overlay_def Let_def by (simp only: option.case pk ls bind_Inr)
  moreover have "\<forall>t v. selected = Some (t, v) \<longrightarrow>
      t \<in> set fs \<and> v \<in> set t \<and> 0 \<le> v \<and> v < int (length vs)"
    using pick_selected_in_face [of cursor ?pv fs] pk idx by auto
  ultimately show ?thesis using d by blast
qed

theorem paint_overlay_labels_witness:
  "paint_overlay (Some [(0, 0, 1 / 2, 1), (1 / 2, 0, 1 / 2, 1), (0, 1 / 2, 1 / 2, 1)])
     [[0, 1, 2]] (Some [(1 / 6, 1 / 6, 1 / 2)]) (Some [(0, 0, 1)])
     (Some ((1, 0, 0, 0), (0, 1, 0, 0), (0, 0, 1, 0), (0, 0, 0, 1))) 100 100 (55, 45)
     (0, 0, 3) (9 / 10) = Inr (Some ([0, 1, 2], 0), [1, 2]) \<and>
   set [1, 2 :: nat] =
     {i. i < length ([(0, 0, 1 / 2, 1), (1 / 2, 0, 1 / 2, 1), (0, 1 / 2, 1 / 2, 1)] :: vec4 list) \<and>
         (\<exists>k < length ([[0, 1, 2]] :: int list list).
            face_visible (0, 0, 3) ([(1 / 6, 1 / 6, 1 / 2)] ! k) ([(0, 0, 1)] ! k) \<and>
            int i \<in> set ([[0, 1, 2]] ! k)) \<and>
         in_range (to_unit (row_times
           ([(0, 0, 1 / 2, 1), (1 / 2, 0, 1 / 2, 1), (0, 1 / 2, 1 / 2, 1)] ! i)
           ((1, 0, 0, 0), (0, 1, 0, 0), (0, 0, 1, 0), (0, 0, 0, 1)))) \<and>
         pz (row_times
           ([(0, 0, 1 / 2, 1), (1 / 2, 0, 1 / 2, 1), (0, 1 / 2, 1 / 2, 1)] ! i)
           ((1, 0, 0, 0), (0, 1, 0, 0), (0, 0, 1, 0), (0, 0, 0, 1))) < 9 / 10 \<and>
         Some (0 :: int) \<noteq> Some (int i)} \<and>
   face_visible (0, 0, 3) (1 / 6, 1 / 6, 1 / 2) (0, 0, 1) \<and>
   (0 :: int) \<in> set [0, 1, 2]"
proof -
  let ?vs = "[(0, 0, 1 / 2, 1), (1 / 2, 0, 1 / 2, 1), (0, 1 / 2, 1 / 2, 1)] :: vec4 list"
  let ?fs = "[[0, 1, 2]] :: int list list"
  let ?mvp = "((1, 0, 0, 0), (0, 1, 0, 0), (0, 0, 1, 0), (0, 0, 0, 1)) :: mat4"
  let ?fp = "[(1 / 6, 1 / 6, 1 / 2)] :: vec3 list"
  let ?fn = "[(0, 0, 1)] :: vec3 list"
  have pk: "pick (55, 45) (map (to_pixels 100 100) (map (\<lambda>v. to_unit (row_times v ?mvp)) ?vs)) ?fs =
      Inr (Some ([0, 1, 2], 0))"
    by (simp add: pick_def intersect_triangles_def numpy_defs face_defs face_depth_def mean_def
        argmin_def cursor_distance_def power2_eq_square)
  have val: "paint_overlay (Some ?vs) ?fs (Some ?fp) (Some ?fn) (Some ?mvp) 100 100 (55, 45)
      (0, 0, 3) (9 / 10) = Inr (Some ([0, 1, 2], 0), [1, 2])"
    by (simp add: paint_overlay_def pick_def intersect_triangles_def face_defs
        label_indices_def numpy_defs face_visible_def np_unique_def face_depth_def mean_def
        argmin_def cursor_distance_def power2_eq_square)
  have thr: "(0 :: real) < 9 / 10" by simp
  have lfp: "length ?fp = length ?fs" and lfn: "length ?fn = length ?fs" by simp_all
  have idx: "\<forall>f \<in> set ?fs. \<forall>j \<in> set f. 0 \<le> j \<and> j < int (length ?vs)" by simp
  from paint_overlay_labels [OF thr lfp lfn idx pk, of "(0, 0, 3)"]
  obtain ls where ls: "paint_overlay (Some ?vs) ?fs (Some ?fp) (Some ?fn) (Some ?mvp) 100 100
        (55, 45) (0, 0, 3) (9 / 10) = Inr (Some ([0, 1, 2], 0), ls)"
    and s: "set ls = {i. i < length ?vs \<and>
         (\<exists>k < length ?fs. face_visible (0, 0, 3) (?fp ! k) (?fn ! k) \<and> int i \<in> set (?fs ! k)) \<and>
         in_range (to_unit (row_times (?vs ! i) ?mvp)) \<and>
         pz (row_times (?vs ! i) ?mvp) < 9 / 10 \<and>
         map_option snd (Some ([0, 1, 2 :: int], 0 :: int)) \<noteq> Some (int i)}"
    and m: "\<forall>t v. Some ([0, 1, 2 :: int], 0 :: int) = Some (t, v) \<longrightarrow>
         t \<in> set ?fs \<and> v \<in> set t \<and> 0 \<le> v \<and> v < int (length ?vs)"
    by blast
  have "ls = [1, 2]" using ls val by simp
  then have "set [1, 2 :: nat] = {i. i < length ?vs \<and>
         (\<exists>k < length ?fs. face_visible (0, 0, 3) (?fp ! k) (?fn ! k) \<and> int i \<in> set (?fs ! k)) \<and>
         in_range (to_unit (row_times (?vs ! i) ?mvp)) \<and>
         pz (row_times (?vs ! i) ?mvp) < 9 / 10 \<and>
         Some (0 :: int) \<noteq> Some (int i)}"
    using s by simp
  moreover have "(0 :: int) \<in> set [0, 1, 2]" using m by blast
  moreover have "face_visible (0, 0, 3) (1 / 6, 1 / 6, 1 / 2) (0, 0, 1)"
    by (simp add: face_visible_def)
  ultimately show ?thesis using val by blast
qed

text \<open>
  C7, as the claim states it. A frame with one face \<open>[0, 1, 2]\<close> over the vertices
  (0,0,0.5), (0.5,0,0.5), (0,0.5,0.5), face position (1/6,1/6,0.5), face normal
  (0,0,1), the identity as \<open>mvp_matrix\<close>, a widget of 100 by 100 pixels, the cursor at
  pixel (0,0), the camera at (0,0,3), which the normal points to, and the threshold
  0.9. The vector from the face centroid to the camera, dotted with the normal, is
  2.5, so the claim's set of labelled vertices is empty; the viewer labels all three
  vertices.
\<close>

theorem label_indices_not_claimed_set:
  "paint_overlay (Some [(0, 0, 1 / 2, 1), (1 / 2, 0, 1 / 2, 1), (0, 1 / 2, 1 / 2, 1)]) [[0, 1, 2]]
     (Some [(1 / 6, 1 / 6, 1 / 2)]) (Some [(0, 0, 1)])
     (Some ((1, 0, 0, 0), (0, 1, 0, 0), (0, 0, 1, 0), (0, 0, 0, 1))) 100 100 (0, 0) (0, 0, 3)
     (9 / 10) = Inr (None, [0, 1, 2]) \<and>
   label_indices [(50, 50, 1 / 2, 1), (75, 50, 1 / 2, 1), (50, 25, 1 / 2, 1)]
     [True, True, True] [[0, 1, 2]] (Some [(1 / 6, 1 / 6, 1 / 2)]) (Some [(0, 0, 1)]) (0, 0, 3)
     (9 / 10) None = Inr [0, 1, 2] \<and>
   claimed_label_set [(50, 50, 1 / 2, 1), (75, 50, 1 / 2, 1), (50, 25, 1 / 2, 1)]
     [True, True, True] [[0, 1, 2]] [(1 / 6, 1 / 6, 1 / 2)] [(0, 0, 1)] (0, 0, 3) (9 / 10) None = {}"
  by (simp add: paint_overlay_def pick_def intersect_triangles_def face_defs
      label_indices_def numpy_defs face_visible_def np_unique_def
      claimed_label_set_def claimed_face_visible_def)

section \<open>Properties of the viewer: lookups, producers and the queue\<close>

lemmas mesh_spec_defs = mesh_spec_def lookup_def update_prefab_def update_instance_def
  spec_add_prefab_def spec_add_instance_def spec_remove_prefab_def spec_remove_instance_def

lemmas demo_defs = demo_viewer_def demo_prefab_def demo_viewer_with_prefab_def new_viewer_def
  add_mesh_'_def add_mesh_prefab_'_def get_mesh_def

text \<open>
  C8. A core id that is absent from \<open>self.mesh_groups\<close>, removed or never applied,
  makes \<open>get_mesh\<close> fail with KeyError, Python's error for a missing dictionary key
  (the spec's NotFoundError); \<open>get_mesh_prefab\<close>, \<open>get_mesh_instance\<close> and
  \<open>get_mesh_instance_visibility\<close> look the group up first and fail the same way,
  whatever the mesh module does.
\<close>

theorem get_mesh_absent:
  "mesh_groups st (core_id mesh_id) = None \<Longrightarrow>
   get_mesh st mesh_id = Inl KeyError \<and>
   get_mesh_prefab api st mesh_id = Inl KeyError \<and>
   get_mesh_instance api st mesh_id = Inl KeyError \<and>
   get_mesh_instance_visibility api st mesh_id = Inl KeyError"
  by (simp add: get_mesh_def get_mesh_prefab_def get_mesh_instance_def
      get_mesh_instance_visibility_def bind_def)

theorem get_mesh_absent_witness:
  "mesh_groups demo_viewer (core_id (GlMeshPrefabId (GlMeshCoreId 3) 0)) = None \<and>
   get_mesh demo_viewer (GlMeshPrefabId (GlMeshCoreId 3) 0) = Inl KeyError \<and>
   get_mesh_prefab mesh_spec demo_viewer (GlMeshPrefabId (GlMeshCoreId 3) 0) = Inl KeyError \<and>
   get_mesh_instance mesh_spec demo_viewer (GlMeshPrefabId (GlMeshCoreId 3) 0) = Inl KeyError \<and>
   get_mesh_instance_visibility mesh_spec demo_viewer (GlMeshPrefabId (GlMeshCoreId 3) 0) =
     Inl KeyError"
  using get_mesh_absent [of demo_viewer "GlMeshPrefabId (GlMeshCoreId 3) 0" mesh_spec]
  by (simp add: demo_defs)

text \<open>
  C1, as the claim states it: in \<open>demo_viewer\<close> the shader \<open>default\<close> is registered
  and \<open>lambert\<close> is not. Applying the command that creates \<open>demo_prefab\<close> with the
  shader \<open>lambert\<close> returns without an error and leaves the viewer as it was: nothing
  is printed, and the prefab does not exist afterwards.
\<close>

theorem add_mesh_prefab_unknown_shader_skips:
  "shaders demo_viewer ''default'' = Some (ShaderProgram ''default'') \<and>
   shaders demo_viewer ''lambert'' = None \<and>
   mesh_groups demo_viewer (core_id demo_prefab) \<noteq> None \<and>
   add_mesh_prefab_' mesh_spec demo_viewer demo_prefab ''lambert''
     Map.empty Map.empty Map.empty True None = (demo_viewer, None) \<and>
   stdout demo_viewer = [] \<and>
   get_mesh_prefab mesh_spec demo_viewer demo_prefab = Inl KeyError"
  by (simp add: demo_defs get_mesh_prefab_def bind_def mesh_spec_defs)

text \<open>
  C1, amended. For every prefab-creation command whose requested shader name is not a
  key of the shader registry, \<open>add_mesh_prefab_\<close> does nothing: it creates no prefab,
  prints no diagnostic and raises no error, and the viewer is left as it was. (The
  call with \<open>self.shaders["default"]\<close> stands in the handler of ValueError, inside the
  branch taken when the requested name is registered.)
\<close>

theorem add_mesh_prefab_unregistered_shader:
  "shaders st shader_name = None \<Longrightarrow>
   add_mesh_prefab_' api st prefab_id shader_name va fa un fill cf = (st, None)"
  by (simp add: add_mesh_prefab_'_def)

theorem add_mesh_prefab_unregistered_shader_witness:
  "shaders demo_viewer ''phong'' = None \<and>
   add_mesh_prefab_' mesh_spec demo_viewer demo_prefab ''phong''
     Map.empty Map.empty Map.empty False (Some demo_prefab) = (demo_viewer, None)"
  using add_mesh_prefab_unregistered_shader [of demo_viewer "''phong''" mesh_spec demo_prefab
      Map.empty Map.empty Map.empty False "Some demo_prefab"]
  by (simp add: demo_viewer_def new_viewer_def add_mesh_'_def)

text \<open>
  The fallback that the source does have: the requested shader is registered, no
  \<open>copy_from\<close> is given, and \<open>add_prefab\<close> raises ValueError for it. The message is
  printed; then the prefab is created with the shader registered as \<open>default\<close>, or
  KeyError is raised when there is none.
\<close>

lemma add_mesh_prefab_fallback:
  assumes "shaders st shader_name = Some sh"
    and "mesh_groups st (core_id prefab_id) = Some g"
    and "add_prefab api g prefab_id va fa un sh fill None = Inl (ValueError err)"
  shows "add_mesh_prefab_' api st prefab_id shader_name va fa un fill None =
           (case shaders st ''default'' of
              None \<Rightarrow> (st\<lparr>stdout := stdout st @ [err]\<rparr>, Some KeyError)
            | Some d \<Rightarrow>
                (case add_prefab api g prefab_id va fa un d fill None of
                   Inl e \<Rightarrow> (st\<lparr>stdout := stdout st @ [err]\<rparr>, Some e)
                 | Inr g' \<Rightarrow>
                     (st\<lparr>stdout := stdout st @ [err],
                         mesh_groups := (mesh_groups st)(core_id prefab_id \<mapsto> g')\<rparr>, None)))"
  using assms
  by (simp add: add_mesh_prefab_'_def add_prefab_default_def update_group_def get_mesh_def
      bind_def split: option.split sum.split)

lemma put_groups: "mesh_groups (put st e) = mesh_groups st"
  by (simp add: put_def)

lemma put_events: "mesh_events (put st e) = mesh_events st @ [e]"
  by (simp add: put_def)

text \<open>
  The counters only grow, and the keys of the registry and the cores of the queued
  \<open>add_mesh\<close> commands stay below the core counter: through every apply routine,
  hence through the drain, and through the draw loop, which writes at keys that the
  registry holds already.
\<close>

lemma update_group_keys:
  assumes "update_group st i f = (st', r)"
  shows "next_core_id st' = next_core_id st \<and> next_prefab_id st' = next_prefab_id st \<and>
         next_instance_id st' = next_instance_id st \<and> mesh_events st' = mesh_events st \<and>
         (\<forall>k. mesh_groups st' k \<noteq> None \<longrightarrow> mesh_groups st k \<noteq> None)"
  using assms
  by (auto simp: update_group_def get_mesh_def bind_def split: sum.splits option.splits if_splits)

lemma add_prefab_default_keys:
  assumes "add_prefab_default api st pid va fa un fill cf = (st', r)"
  shows "next_core_id st' = next_core_id st \<and> next_prefab_id st' = next_prefab_id st \<and>
         next_instance_id st' = next_instance_id st \<and> mesh_events st' = mesh_events st \<and>
         (\<forall>k. mesh_groups st' k \<noteq> None \<longrightarrow> mesh_groups st k \<noteq> None)"
  using assms update_group_keys [of st pid _ st' r]
  by (auto simp: add_prefab_default_def split: sum.splits option.splits)

lemma add_mesh_prefab_'_keys:
  assumes "add_mesh_prefab_' api st pid sh va fa un fill cf = (st', r)"
  shows "next_core_id st' = next_core_id st \<and> next_prefab_id st' = next_prefab_id st \<and>
         next_instance_id st' = next_instance_id st \<and> mesh_events st' = mesh_events st \<and>
         (\<forall>k. mesh_groups st' k \<noteq> None \<longrightarrow> mesh_groups st k \<noteq> None)"
proof -
  have d: "\<And>err cf'. add_prefab_default api (st\<lparr>stdout := stdout st @ [err]\<rparr>) pid va fa un fill cf' = (st', r)
        \<Longrightarrow> ?thesis"
    using add_prefab_default_keys by fastforce
  show ?thesis
    using assms d
    by (auto simp: add_mesh_prefab_'_def get_mesh_def bind_def
        split: option.splits sum.splits error.splits if_splits)
qed

lemma dispatch_counters:
  assumes "dispatch api e st = (st', r)"
  shows "next_core_id st' = next_core_id st \<and> next_prefab_id st \<le> next_prefab_id st' \<and>
         next_instance_id st \<le> next_instance_id st'"
proof (cases e)
  case (Add_wireframe i c)
  then show ?thesis
    using assms
    by (auto simp: add_wireframe_'_def add_mesh_prefab_def add_mesh_instance_def put_def Let_def
        split: sum.splits prod.splits)
next
  case (Add_mesh_prefab pid sh va fa un fill cf)
  then show ?thesis using assms add_mesh_prefab_'_keys [of api st pid sh va fa un fill cf st' r] by simp
next
  case (Remove_mesh c)
  then show ?thesis using assms by (auto simp: remove_mesh_'_def split: option.splits)
qed (use assms in \<open>auto simp: add_mesh_'_def add_mesh_instance_'_def
    update_mesh_vertices_'_def update_mesh_prefab_uniform_'_def
    update_mesh_prefab_vertex_attribute_'_def update_mesh_prefab_face_attribute_'_def
    update_mesh_instance_model_'_def set_mesh_instance_visibility_'_def
    remove_mesh_prefab_'_def remove_mesh_instance_'_def clear_all_'_def
    dest: update_group_keys\<close>)

lemma drain_counters:
  "next_core_id (fst (process_mesh_events api st)) = next_core_id st \<and>
   next_prefab_id st \<le> next_prefab_id (fst (process_mesh_events api st)) \<and>
   next_instance_id st \<le> next_instance_id (fst (process_mesh_events api st))"
proof (induction api st rule: process_mesh_events.induct)
  case (1 api st)
  show ?case
  proof (cases "mesh_events st")
    case Nil
    then show ?thesis by (simp add: process_mesh_events.simps)
  next
    case (Cons e queue)
    obtain st' r where d: "dispatch api e (st\<lparr>mesh_events := queue\<rparr>) = (st', r)"
      by (cases "dispatch api e (st\<lparr>mesh_events := queue\<rparr>)")
    note c = dispatch_counters [OF d]
    show ?thesis
    proof (cases r)
      case None
      have "process_mesh_events api st = process_mesh_events api st'"
        using Cons d None by (simp add: process_mesh_events.simps [of api st])
      moreover note "1.IH" [OF Cons d [symmetric] None]
      ultimately show ?thesis using c by simp
    next
      case (Some err)
      have "process_mesh_events api st = (st', Some err)"
        using Cons d Some by (simp add: process_mesh_events.simps [of api st])
      then show ?thesis using c by simp
    qed
  qed
qed

lemma below_counter_mono:
  assumes "next_core_id st \<le> next_core_id st'" and "next_prefab_id st \<le> next_prefab_id st'"
    and "next_instance_id st \<le> next_instance_id st'" and "below_counter st i"
  shows "below_counter st' i"
  using assms by (cases i) auto

lemma list_all_puts_core_mono: "n \<le> m \<Longrightarrow> list_all (puts_core n) q \<Longrightarrow> list_all (puts_core m) q"
proof (induction q)
  case (Cons e q)
  then show ?case by (cases e) auto
qed simp

lemma dispatch_cores:
  assumes inv: "cores_below_counter (st\<lparr>mesh_events := e # queue\<rparr>)"
    and d: "dispatch api e (st\<lparr>mesh_events := queue\<rparr>) = (st', r)"
  shows "cores_below_counter st'"
proof (cases e)
  case (Add_wireframe i c)
  then show ?thesis
    using inv d
    by (auto simp: cores_below_counter_def add_wireframe_'_def add_mesh_prefab_def
        add_mesh_instance_def put_def Let_def split: sum.splits prod.splits)
next
  case (Add_mesh_prefab pid sh va fa un fill cf)
  then show ?thesis
    using inv d add_mesh_prefab_'_keys [of api "st\<lparr>mesh_events := queue\<rparr>" pid sh va fa un fill cf st' r]
    by (auto simp: cores_below_counter_def)
next
  case (Remove_mesh c)
  then show ?thesis using inv d
    by (auto simp: cores_below_counter_def remove_mesh_'_def split: option.splits if_splits)
next
  case (Add_mesh c vs fs)
  then show ?thesis using inv d
    by (auto simp: cores_below_counter_def add_mesh_'_def split: if_splits)
next
  case Clear_all
  then show ?thesis using inv d by (auto simp: cores_below_counter_def clear_all_'_def)
qed (use inv d in \<open>auto simp: cores_below_counter_def add_mesh_instance_'_def
    update_mesh_vertices_'_def update_mesh_prefab_uniform_'_def
    update_mesh_prefab_vertex_attribute_'_def update_mesh_prefab_face_attribute_'_def
    update_mesh_instance_model_'_def set_mesh_instance_visibility_'_def
    remove_mesh_prefab_'_def remove_mesh_instance_'_def
    dest!: update_group_keys\<close>)

lemma drain_cores:
  "cores_below_counter st \<Longrightarrow> cores_below_counter (fst (process_mesh_events api st))"
proof (induction api st rule: process_mesh_events.induct)
  case (1 api st)
  show ?case
  proof (cases "mesh_events st")
    case Nil
    then show ?thesis using "1.prems" by (simp add: process_mesh_events.simps)
  next
    case (Cons e queue)
    obtain st' r where d: "dispatch api e (st\<lparr>mesh_events := queue\<rparr>) = (st', r)"
      by (cases "dispatch api e (st\<lparr>mesh_events := queue\<rparr>)")
    have "st\<lparr>mesh_events := e # queue\<rparr> = st" using Cons by simp
    then have c: "cores_below_counter st'"
      using dispatch_cores [OF _ d] "1.prems" by simp
    show ?thesis
    proof (cases r)
      case None
      have "process_mesh_events api st = process_mesh_events api st'"
        using Cons d None by (simp add: process_mesh_events.simps [of api st])
      then show ?thesis using "1.IH" [OF Cons d [symmetric] None c] by simp
    next
      case (Some err)
      have "process_mesh_events api st = (st', Some err)"
        using Cons d Some by (simp add: process_mesh_events.simps [of api st])
      then show ?thesis using c by simp
    qed
  qed
qed

lemma draw_triples_unchanged:
  "list_all (\<lambda>t. get_model_matrix api (snd (snd t)) \<noteq> None) ts \<Longrightarrow>
   draw_triples api get_shader dw g ts = (g, None)"
  by (induction ts) (auto simp: draw_instance_def)

lemma draw_loop_unchanged:
  "list_all (\<lambda>k. case mesh_groups st k of None \<Rightarrow> True
       | Some g \<Rightarrow> list_all (\<lambda>t. get_model_matrix api (snd (snd t)) \<noteq> None) (triples g)) ks \<Longrightarrow>
   draw_loop api triples get_shader dw ks st = (st, None)"
proof (induction ks)
  case (Cons k ks)
  show ?case
  proof (cases "mesh_groups st k")
    case None
    then show ?thesis using Cons by simp
  next
    case (Some g)
    then have "(mesh_groups st)(k \<mapsto> g) = mesh_groups st" by auto
    then show ?thesis using Cons Some by (simp add: draw_triples_unchanged)
  qed
qed simp

lemmas producer_defs = add_mesh_def add_mesh_prefab_def add_mesh_instance_def
  update_mesh_vertices_def update_mesh_prefab_uniform_def
  update_mesh_prefab_vertex_attribute_def update_mesh_prefab_face_attribute_def
  update_mesh_instance_model_def set_mesh_instance_visibility_def remove_mesh_def
  remove_mesh_prefab_def remove_mesh_instance_def clear_all_def

lemma demo_scene_groups:
  "mesh_events (demo_scene m) = [] \<and>
   next_core_id (demo_scene m) = 1 \<and> next_prefab_id (demo_scene m) = 1 \<and>
   next_instance_id (demo_scene m) = 1 \<and>
   mesh_groups (demo_scene m) =
     [0 \<mapsto> \<lparr>core_vertices = [(0, 0, 0), (1, 0, 0), (0, 1, 0)], core_faces = [[0, 1, 2]],
            prefabs = [demo_prefab \<mapsto>
              \<lparr>prefab_shader = ShaderProgram ''default'', prefab_uniforms = Map.empty,
               prefab_vertex_attributes = Map.empty, prefab_face_attributes = Map.empty,
               prefab_fill = True\<rparr>],
            instances = [demo_instance \<mapsto>
              \<lparr>instance_model_matrix = m, instance_visibility = True\<rparr>]\<rparr>]"
  by (simp add: demo_scene_def demo_instance_def demo_prefab_def new_viewer_def
      add_mesh_def add_mesh_prefab_def add_mesh_instance_def put_def Let_def
      face_position_def vmean_def bind_def np_index_def
      process_mesh_events.simps add_mesh_'_def add_mesh_prefab_'_def add_prefab_default_def
      add_mesh_instance_'_def update_group_def get_mesh_def mesh_spec_defs)

lemma producers_ids:
  "(\<forall>cid. snd (add_mesh st vs fs) = Inr cid \<longrightarrow>
      cid = GlMeshCoreId (next_core_id st) \<and>
      next_core_id (fst (add_mesh st vs fs)) = Suc (next_core_id st) \<and>
      \<not> below_counter st cid \<and> below_counter (fst (add_mesh st vs fs)) cid) \<and>
   (\<forall>e. snd (add_mesh st vs fs) = Inl e \<longrightarrow>
      next_core_id (fst (add_mesh st vs fs)) = next_core_id st) \<and>
   snd (add_mesh_prefab st cid sh va fa un fill cf) = GlMeshPrefabId cid (next_prefab_id st) \<and>
   next_prefab_id (fst (add_mesh_prefab st cid sh va fa un fill cf)) = Suc (next_prefab_id st) \<and>
   \<not> below_counter st (snd (add_mesh_prefab st cid sh va fa un fill cf)) \<and>
   below_counter (fst (add_mesh_prefab st cid sh va fa un fill cf))
     (snd (add_mesh_prefab st cid sh va fa un fill cf)) \<and>
   snd (add_mesh_instance st pid m) = GlMeshInstanceId pid (next_instance_id st) \<and>
   next_instance_id (fst (add_mesh_instance st pid m)) = Suc (next_instance_id st) \<and>
   \<not> below_counter st (snd (add_mesh_instance st pid m)) \<and>
   below_counter (fst (add_mesh_instance st pid m)) (snd (add_mesh_instance st pid m))"
  by (auto simp: add_mesh_def add_mesh_prefab_def add_mesh_instance_def put_def Let_def
      split: sum.splits option.splits)

lemma producers_keep_ids:
  assumes "below_counter st i"
  shows "below_counter (fst (add_mesh st vs fs)) i \<and>
     below_counter (fst (add_mesh_prefab st cid sh va fa un fill cf)) i \<and>
     below_counter (fst (add_mesh_instance st pid m)) i \<and>
     below_counter (update_mesh_vertices st cid vs) i \<and>
     below_counter (update_mesh_prefab_uniform st pid name v) i \<and>
     below_counter (update_mesh_prefab_vertex_attribute st pid name a) i \<and>
     below_counter (update_mesh_prefab_face_attribute st pid name a) i \<and>
     below_counter (update_mesh_instance_model st iid m) i \<and>
     below_counter (set_mesh_instance_visibility st iid b) i \<and>
     below_counter (remove_mesh st cid) i \<and>
     below_counter (remove_mesh_prefab st pid) i \<and>
     below_counter (remove_mesh_instance st iid) i \<and>
     below_counter (clear_all st) i \<and>
     below_counter (fst (process_mesh_events api st)) i"
proof -
  have drain: "below_counter (fst (process_mesh_events api st)) i"
    using below_counter_mono [OF _ _ _ assms, of "fst (process_mesh_events api st)"]
      drain_counters [of api st] by simp
  show ?thesis
    using assms drain
    by (cases i) (auto simp: producer_defs put_def Let_def split: sum.splits option.splits)
qed

lemma queued_core_below:
  "list_all (puts_core n) q \<Longrightarrow> Add_mesh c vs fs \<in> set q \<Longrightarrow> core_id c < n"
  by (induction q) auto

lemma put_cores:
  "cores_below_counter st \<Longrightarrow> puts_core (next_core_id st) e \<Longrightarrow> cores_below_counter (put st e)"
  by (simp add: cores_below_counter_def put_def)

lemma producers_keep_cores:
  assumes "cores_below_counter st"
  shows "(\<forall>cid. snd (add_mesh st vs fs) = Inr cid \<longrightarrow>
        mesh_groups st (core_id cid) = None \<and>
        (\<forall>c vs' fs'. Add_mesh c vs' fs' \<in> set (mesh_events st) \<longrightarrow> core_id c \<noteq> core_id cid)) \<and>
     cores_below_counter (fst (add_mesh st vs fs)) \<and>
     cores_below_counter (fst (add_mesh_prefab st cid sh va fa un fill cf)) \<and>
     cores_below_counter (fst (add_mesh_instance st pid m)) \<and>
     cores_below_counter (update_mesh_vertices st cid vs) \<and>
     cores_below_counter (update_mesh_prefab_uniform st pid name v) \<and>
     cores_below_counter (update_mesh_prefab_vertex_attribute st pid name a) \<and>
     cores_below_counter (update_mesh_prefab_face_attribute st pid name a) \<and>
     cores_below_counter (update_mesh_instance_model st iid m) \<and>
     cores_below_counter (set_mesh_instance_visibility st iid b) \<and>
     cores_below_counter (remove_mesh st cid) \<and>
     cores_below_counter (remove_mesh_prefab st pid) \<and>
     cores_below_counter (remove_mesh_instance st iid) \<and>
     cores_below_counter (clear_all st) \<and>
     cores_below_counter (fst (process_mesh_events api st))"
proof -
  have fresh: "\<forall>cid. snd (add_mesh st vs fs) = Inr cid \<longrightarrow>
        mesh_groups st (core_id cid) = None \<and>
        (\<forall>c vs' fs'. Add_mesh c vs' fs' \<in> set (mesh_events st) \<longrightarrow> core_id c \<noteq> core_id cid)"
  proof (intro allI impI)
    fix cid assume "snd (add_mesh st vs fs) = Inr cid"
    then have c: "core_id cid = next_core_id st"
      using producers_ids [of st vs fs] by simp
    have "mesh_groups st (next_core_id st) = None"
      using assms unfolding cores_below_counter_def by (metis less_irrefl)
    moreover have "\<And>c vs' fs'. Add_mesh c vs' fs' \<in> set (mesh_events st) \<Longrightarrow>
        core_id c \<noteq> next_core_id st"
      using assms queued_core_below [of "next_core_id st" "mesh_events st"]
      unfolding cores_below_counter_def by fastforce
    ultimately show "mesh_groups st (core_id cid) = None \<and>
        (\<forall>c vs' fs'. Add_mesh c vs' fs' \<in> set (mesh_events st) \<longrightarrow> core_id c \<noteq> core_id cid)"
      using c by simp
  qed
  have add: "cores_below_counter (fst (add_mesh st vs fs))"
    using assms list_all_puts_core_mono [of "next_core_id st" "Suc (next_core_id st)" "mesh_events st"]
    by (auto simp: cores_below_counter_def add_mesh_def put_def Let_def less_Suc_eq
        split: sum.splits)
  have prefab: "cores_below_counter (fst (add_mesh_prefab st cid sh va fa un fill cf))"
    using assms
    by (auto simp: cores_below_counter_def add_mesh_prefab_def put_def Let_def split: option.splits)
  have inst: "cores_below_counter (fst (add_mesh_instance st pid m))"
    using assms by (auto simp: cores_below_counter_def add_mesh_instance_def put_def Let_def)
  show ?thesis
    using fresh add prefab inst drain_cores [OF assms, of api] put_cores [OF assms]
    by (simp add: producer_defs del: put_def)
qed

lemma drain_empty: "mesh_events st = [] \<Longrightarrow> process_mesh_events api st = (st, None)"
  by (simp add: process_mesh_events.simps)

lemma draw_instance_default:
  "get_visibility api inst \<Longrightarrow> shader_name_of (get_shader p) = ''wireframe'' \<longrightarrow> dw \<Longrightarrow>
   get_model_matrix api inst = None \<Longrightarrow>
   draw_instance api get_shader dw g (iid, p, inst) = set_model_matrix api g iid (Some eye4)"
  by (auto simp: draw_instance_def)


lemma draw_loop_frame:
  "mesh_events (fst (draw_loop api triples get_shader dw ks st)) = mesh_events st \<and>
   next_core_id (fst (draw_loop api triples get_shader dw ks st)) = next_core_id st \<and>
   next_prefab_id (fst (draw_loop api triples get_shader dw ks st)) = next_prefab_id st \<and>
   next_instance_id (fst (draw_loop api triples get_shader dw ks st)) = next_instance_id st \<and>
   (\<forall>k. mesh_groups (fst (draw_loop api triples get_shader dw ks st)) k = None \<longleftrightarrow>
        mesh_groups st k = None)"
proof (induction ks arbitrary: st)
  case (Cons k ks)
  show ?case
  proof (cases "mesh_groups st k")
    case None
    then show ?thesis using Cons [of st] by simp
  next
    case (Some g)
    obtain g' r where t: "draw_triples api get_shader dw g (triples g) = (g', r)"
      by (cases "draw_triples api get_shader dw g (triples g)")
    show ?thesis
    proof (cases r)
      case None
      then show ?thesis
        using Some t Cons [of "st\<lparr>mesh_groups := (mesh_groups st)(k \<mapsto> g')\<rparr>"] by auto
    next
      case (Some e)
      then show ?thesis using \<open>mesh_groups st k = Some g\<close> t by auto
    qed
  qed
qed simp

lemma draw_loop_keeps:
  "(below_counter st i \<longrightarrow> below_counter (fst (draw_loop api triples get_shader dw ks st)) i) \<and>
   (cores_below_counter st \<longrightarrow>
      cores_below_counter (fst (draw_loop api triples get_shader dw ks st)))"
  using draw_loop_frame [of api triples get_shader dw ks st]
  by (cases i) (auto simp: cores_below_counter_def)

lemma producers_put:
  "(\<forall>cid. snd (add_mesh st vs fs) = Inr cid \<longrightarrow>
      mesh_events (fst (add_mesh st vs fs)) = mesh_events st @ [Add_mesh cid vs fs]) \<and>
   (\<forall>e. snd (add_mesh st vs fs) = Inl e \<longrightarrow>
      mesh_events (fst (add_mesh st vs fs)) = mesh_events st) \<and>
   mesh_groups (fst (add_mesh st vs fs)) = mesh_groups st \<and>
   mesh_groups (fst (add_mesh_prefab st cid sh va fa un fill cf)) = mesh_groups st \<and>
   mesh_events (fst (add_mesh_prefab st cid sh va fa un fill cf)) =
     mesh_events st @
       [Add_mesh_prefab (snd (add_mesh_prefab st cid sh va fa un fill cf)) sh va fa un fill cf] \<and>
   mesh_groups (fst (add_mesh_instance st pid m)) = mesh_groups st \<and>
   mesh_events (fst (add_mesh_instance st pid m)) =
     mesh_events st @ [Add_mesh_instance (snd (add_mesh_instance st pid m)) m] \<and>
   mesh_groups (update_mesh_vertices st cid vs) = mesh_groups st \<and>
   mesh_events (update_mesh_vertices st cid vs) = mesh_events st @ [Update_mesh_vertices cid vs] \<and>
   mesh_groups (update_mesh_prefab_uniform st pid name v) = mesh_groups st \<and>
   mesh_events (update_mesh_prefab_uniform st pid name v) =
     mesh_events st @ [Update_mesh_prefab_uniform pid name v] \<and>
   mesh_groups (update_mesh_prefab_vertex_attribute st pid name a) = mesh_groups st \<and>
   mesh_events (update_mesh_prefab_vertex_attribute st pid name a) =
     mesh_events st @ [Update_mesh_prefab_vertex_attribute pid name a] \<and>
   mesh_groups (update_mesh_prefab_face_attribute st pid name a) = mesh_groups st \<and>
   mesh_events (update_mesh_prefab_face_attribute st pid name a) =
     mesh_events st @ [Update_mesh_prefab_face_attribute pid name a] \<and>
   mesh_groups (update_mesh_instance_model st iid m) = mesh_groups st \<and>
   mesh_events (update_mesh_instance_model st iid m) =
     mesh_events st @ [Update_mesh_instance_model iid m] \<and>
   mesh_groups (set_mesh_instance_visibility st iid b) = mesh_groups st \<and>
   mesh_events (set_mesh_instance_visibility st iid b) =
     mesh_events st @ [Set_mesh_instance_visibility iid b] \<and>
   mesh_groups (remove_mesh st cid) = mesh_groups st \<and>
   mesh_events (remove_mesh st cid) = mesh_events st @ [Remove_mesh cid] \<and>
   mesh_groups (remove_mesh_prefab st pid) = mesh_groups st \<and>
   mesh_events (remove_mesh_prefab st pid) = mesh_events st @ [Remove_mesh_prefab pid] \<and>
   mesh_groups (remove_mesh_instance st iid) = mesh_groups st \<and>
   mesh_events (remove_mesh_instance st iid) = mesh_events st @ [Remove_mesh_instance iid] \<and>
   mesh_groups (clear_all st) = mesh_groups st \<and>
   mesh_events (clear_all st) = mesh_events st @ [Clear_all]"
  by (simp add: producer_defs put_groups put_events Let_def split: sum.splits option.splits)

lemma demo_scene_add_mesh:
  "snd (add_mesh (demo_scene m) [(0, 0, 0), (1, 0, 0), (0, 1, 0)] [[0, 1, 2]]) =
     Inr (GlMeshCoreId 1)"
  by (simp add: add_mesh_def Let_def face_position_def bind_def np_index_def demo_scene_groups)

text \<open>
  C6, as the claim states it. The scene of \<open>demo_scene\<close> with an instance created
  without a model matrix: the queue is empty, so the drain of the next frame applies
  nothing and returns the state as it is. The draw loop of that frame (lines 222 to
  225) stores the identity in the instance, which had no model matrix: the registry
  is written outside the drain.
\<close>

theorem draw_loop_writes_registry:
  "mesh_events (demo_scene None) = [] \<and>
   process_mesh_events mesh_spec (demo_scene None) = (demo_scene None, None) \<and>
   model_matrix_of (demo_scene None) demo_instance = None \<and>
   snd (draw_loop mesh_spec (spec_triples [demo_instance]) prefab_shader True [0]
          (demo_scene None)) = None \<and>
   model_matrix_of
     (fst (draw_loop mesh_spec (spec_triples [demo_instance]) prefab_shader True [0]
             (demo_scene None))) demo_instance = Some eye4 \<and>
   mesh_groups
     (fst (draw_loop mesh_spec (spec_triples [demo_instance]) prefab_shader True [0]
             (demo_scene None))) \<noteq> mesh_groups (demo_scene None)"
proof -
  let ?s = "demo_scene None"
  let ?d = "draw_loop mesh_spec (spec_triples [demo_instance]) prefab_shader True [0] ?s"
  have empty: "mesh_events ?s = []"
    by (simp add: demo_scene_groups)
  have before: "model_matrix_of ?s demo_instance = None"
    by (simp add: model_matrix_of_def demo_scene_groups demo_instance_def demo_prefab_def)
  have after: "snd ?d = None \<and> model_matrix_of (fst ?d) demo_instance = Some eye4"
    by (simp add: model_matrix_of_def demo_scene_groups demo_instance_def demo_prefab_def
        spec_triples_def draw_instance_def mesh_spec_defs bind_def)
  have "mesh_groups (fst ?d) \<noteq> mesh_groups ?s"
    using before after unfolding model_matrix_of_def by (metis option.distinct(1))
  then show ?thesis
    using empty before after by (simp add: process_mesh_events.simps)
qed

text \<open>
  C6, amended. A producer that returns has changed nothing in the registry and has
  appended its command, carrying the identifier it returns, to the pre-draw queue.
  \<open>add_mesh\<close>, \<open>add_mesh_prefab\<close> and \<open>add_mesh_instance\<close> return the identifier
  made of the counter of its class, and advance that counter: the identifier is not
  below the counters before the call and is below them after it; a call of
  \<open>add_mesh\<close> that raises (line 434, on a face entry that is no index of the vertex
  array) has put nothing and issued nothing. Identifiers below the counters stay
  below them through every producer, the drain and the draw loop; and where the
  keys of the registry and the cores of the queued \<open>add_mesh\<close> commands are below the
  core counter, which every producer, the drain and the draw loop preserve, the core
  that \<open>add_mesh\<close> returns is no key of the registry and is the core of no queued
  \<open>add_mesh\<close> command. The registry is written in two places of the frame: by the
  apply routines that the drain runs (a drain of an empty queue changes nothing), and
  by the draw loop, which stores the identity in every visible, drawn instance that
  has no model matrix and changes nothing when every instance it meets has one.
\<close>

theorem producers_allocate_and_enqueue:
  "((\<forall>cid. snd (add_mesh st vs fs) = Inr cid \<longrightarrow>
      cid = GlMeshCoreId (next_core_id st) \<and>
      next_core_id (fst (add_mesh st vs fs)) = Suc (next_core_id st) \<and>
      \<not> below_counter st cid \<and> below_counter (fst (add_mesh st vs fs)) cid) \<and>
    (\<forall>e. snd (add_mesh st vs fs) = Inl e \<longrightarrow>
      next_core_id (fst (add_mesh st vs fs)) = next_core_id st) \<and>
    snd (add_mesh_prefab st cid sh va fa un fill cf) = GlMeshPrefabId cid (next_prefab_id st) \<and>
    next_prefab_id (fst (add_mesh_prefab st cid sh va fa un fill cf)) = Suc (next_prefab_id st) \<and>
    \<not> below_counter st (snd (add_mesh_prefab st cid sh va fa un fill cf)) \<and>
    below_counter (fst (add_mesh_prefab st cid sh va fa un fill cf))
      (snd (add_mesh_prefab st cid sh va fa un fill cf)) \<and>
    snd (add_mesh_instance st pid m) = GlMeshInstanceId pid (next_instance_id st) \<and>
    next_instance_id (fst (add_mesh_instance st pid m)) = Suc (next_instance_id st) \<and>
    \<not> below_counter st (snd (add_mesh_instance st pid m)) \<and>
    below_counter (fst (add_mesh_instance st pid m)) (snd (add_mesh_instance st pid m))) \<and>
   ((\<forall>cid. snd (add_mesh st vs fs) = Inr cid \<longrightarrow>
      mesh_events (fst (add_mesh st vs fs)) = mesh_events st @ [Add_mesh cid vs fs]) \<and>
    (\<forall>e. snd (add_mesh st vs fs) = Inl e \<longrightarrow>
      mesh_events (fst (add_mesh st vs fs)) = mesh_events st) \<and>
    mesh_groups (fst (add_mesh st vs fs)) = mesh_groups st \<and>
    mesh_groups (fst (add_mesh_prefab st cid sh va fa un fill cf)) = mesh_groups st \<and>
    mesh_events (fst (add_mesh_prefab st cid sh va fa un fill cf)) =
      mesh_events st @
        [Add_mesh_prefab (snd (add_mesh_prefab st cid sh va fa un fill cf)) sh va fa un fill cf] \<and>
    mesh_groups (fst (add_mesh_instance st pid m)) = mesh_groups st \<and>
    mesh_events (fst (add_mesh_instance st pid m)) =
      mesh_events st @ [Add_mesh_instance (snd (add_mesh_instance st pid m)) m] \<and>
    mesh_groups (update_mesh_vertices st cid vs) = mesh_groups st \<and>
    mesh_events (update_mesh_vertices st cid vs) = mesh_events st @ [Update_mesh_vertices cid vs] \<and>
    mesh_groups (update_mesh_prefab_uniform st pid name v) = mesh_groups st \<and>
    mesh_events (update_mesh_prefab_uniform st pid name v) =
      mesh_events st @ [Update_mesh_prefab_uniform pid name v] \<and>
    mesh_groups (update_mesh_prefab_vertex_attribute st pid name a) = mesh_groups st \<and>
    mesh_events (update_mesh_prefab_vertex_attribute st pid name a) =
      mesh_events st @ [Update_mesh_prefab_vertex_attribute pid name a] \<and>
    mesh_groups (update_mesh_prefab_face_attribute st pid name a) = mesh_groups st \<and>
    mesh_events (update_mesh_prefab_face_attribute st pid name a) =
      mesh_events st @ [Update_mesh_prefab_face_attribute pid name a] \<and>
    mesh_groups (update_mesh_instance_model st iid m) = mesh_groups st \<and>
    mesh_events (update_mesh_instance_model st iid m) =
      mesh_events st @ [Update_mesh_instance_model iid m] \<and>
    mesh_groups (set_mesh_instance_visibility st iid b) = mesh_groups st \<and>
    mesh_events (set_mesh_instance_visibility st iid b) =
      mesh_events st @ [Set_mesh_instance_visibility iid b] \<and>
    mesh_groups (remove_mesh st cid) = mesh_groups st \<and>
    mesh_events (remove_mesh st cid) = mesh_events st @ [Remove_mesh cid] \<and>
    mesh_groups (remove_mesh_prefab st pid) = mesh_groups st \<and>
    mesh_events (remove_mesh_prefab st pid) = mesh_events st @ [Remove_mesh_prefab pid] \<and>
    mesh_groups (remove_mesh_instance st iid) = mesh_groups st \<and>
    mesh_events (remove_mesh_instance st iid) = mesh_events st @ [Remove_mesh_instance iid] \<and>
    mesh_groups (clear_all st) = mesh_groups st \<and>
    mesh_events (clear_all st) = mesh_events st @ [Clear_all]) \<and>
   (below_counter st i \<longrightarrow>
      below_counter (fst (add_mesh st vs fs)) i \<and>
      below_counter (fst (add_mesh_prefab st cid sh va fa un fill cf)) i \<and>
      below_counter (fst (add_mesh_instance st pid m)) i \<and>
      below_counter (update_mesh_vertices st cid vs) i \<and>
      below_counter (update_mesh_prefab_uniform st pid name v) i \<and>
      below_counter (update_mesh_prefab_vertex_attribute st pid name a) i \<and>
      below_counter (update_mesh_prefab_face_attribute st pid name a) i \<and>
      below_counter (update_mesh_instance_model st iid m) i \<and>
      below_counter (set_mesh_instance_visibility st iid b) i \<and>
      below_counter (remove_mesh st cid) i \<and>
      below_counter (remove_mesh_prefab st pid) i \<and>
      below_counter (remove_mesh_instance st iid) i \<and>
      below_counter (clear_all st) i \<and>
      below_counter (fst (process_mesh_events api st)) i) \<and>
   (cores_below_counter st \<longrightarrow>
      (\<forall>cid. snd (add_mesh st vs fs) = Inr cid \<longrightarrow>
         mesh_groups st (core_id cid) = None \<and>
         (\<forall>c vs' fs'. Add_mesh c vs' fs' \<in> set (mesh_events st) \<longrightarrow> core_id c \<noteq> core_id cid)) \<and>
      cores_below_counter (fst (add_mesh st vs fs)) \<and>
      cores_below_counter (fst (add_mesh_prefab st cid sh va fa un fill cf)) \<and>
      cores_below_counter (fst (add_mesh_instance st pid m)) \<and>
      cores_below_counter (update_mesh_vertices st cid vs) \<and>
      cores_below_counter (update_mesh_prefab_uniform st pid name v) \<and>
      cores_below_counter (update_mesh_prefab_vertex_attribute st pid name a) \<and>
      cores_below_counter (update_mesh_prefab_face_attribute st pid name a) \<and>
      cores_below_counter (update_mesh_instance_model st iid m) \<and>
      cores_below_counter (set_mesh_instance_visibility st iid b) \<and>
      cores_below_counter (remove_mesh st cid) \<and>
      cores_below_counter (remove_mesh_prefab st pid) \<and>
      cores_below_counter (remove_mesh_instance st iid) \<and>
      cores_below_counter (clear_all st) \<and>
      cores_below_counter (fst (process_mesh_events api st))) \<and>
   (mesh_events st = [] \<longrightarrow> process_mesh_events api st = (st, None)) \<and>
   (list_all (\<lambda>k. case mesh_groups st k of
                    None \<Rightarrow> True
                  | Some g \<Rightarrow> list_all (\<lambda>t. get_model_matrix api (snd (snd t)) \<noteq> None) (triples g))
      keys \<longrightarrow>
    draw_loop api triples get_shader dw keys st = (st, None)) \<and>
   (get_visibility api inst \<and> (shader_name_of (get_shader p) = ''wireframe'' \<longrightarrow> dw) \<and>
    get_model_matrix api inst = None \<longrightarrow>
    draw_instance api get_shader dw g (instance_id, p, inst) =
      set_model_matrix api g instance_id (Some eye4)) \<and>
   ((below_counter st i \<longrightarrow>
       below_counter (fst (draw_loop api triples get_shader dw keys st)) i) \<and>
    (cores_below_counter st \<longrightarrow>
       cores_below_counter (fst (draw_loop api triples get_shader dw keys st))))"
proof -
  have keep: "below_counter st i \<longrightarrow>
      below_counter (fst (add_mesh st vs fs)) i \<and>
      below_counter (fst (add_mesh_prefab st cid sh va fa un fill cf)) i \<and>
      below_counter (fst (add_mesh_instance st pid m)) i \<and>
      below_counter (update_mesh_vertices st cid vs) i \<and>
      below_counter (update_mesh_prefab_uniform st pid name v) i \<and>
      below_counter (update_mesh_prefab_vertex_attribute st pid name a) i \<and>
      below_counter (update_mesh_prefab_face_attribute st pid name a) i \<and>
      below_counter (update_mesh_instance_model st iid m) i \<and>
      below_counter (set_mesh_instance_visibility st iid b) i \<and>
      below_counter (remove_mesh st cid) i \<and>
      below_counter (remove_mesh_prefab st pid) i \<and>
      below_counter (remove_mesh_instance st iid) i \<and>
      below_counter (clear_all st) i \<and>
      below_counter (fst (process_mesh_events api st)) i"
    by (rule impI) (rule producers_keep_ids)
  have cores: "cores_below_counter st \<longrightarrow>
      (\<forall>cid. snd (add_mesh st vs fs) = Inr cid \<longrightarrow>
         mesh_groups st (core_id cid) = None \<and>
         (\<forall>c vs' fs'. Add_mesh c vs' fs' \<in> set (mesh_events st) \<longrightarrow> core_id c \<noteq> core_id cid)) \<and>
      cores_below_counter (fst (add_mesh st vs fs)) \<and>
      cores_below_counter (fst (add_mesh_prefab st cid sh va fa un fill cf)) \<and>
      cores_below_counter (fst (add_mesh_instance st pid m)) \<and>
      cores_below_counter (update_mesh_vertices st cid vs) \<and>
      cores_below_counter (update_mesh_prefab_uniform st pid name v) \<and>
      cores_below_counter (update_mesh_prefab_vertex_attribute st pid name a) \<and>
      cores_below_counter (update_mesh_prefab_face_attribute st pid name a) \<and>
      cores_below_counter (update_mesh_instance_model st iid m) \<and>
      cores_below_counter (set_mesh_instance_visibility st iid b) \<and>
      cores_below_counter (remove_mesh st cid) \<and>
      cores_below_counter (remove_mesh_prefab st pid) \<and>
      cores_below_counter (remove_mesh_instance st iid) \<and>
      cores_below_counter (clear_all st) \<and>
      cores_below_counter (fst (process_mesh_events api st))"
    by (rule impI) (rule producers_keep_cores)
  have empty: "mesh_events st = [] \<longrightarrow> process_mesh_events api st = (st, None)"
    by (simp add: drain_empty)
  have same: "list_all (\<lambda>k. case mesh_groups st k of
                    None \<Rightarrow> True
                  | Some g \<Rightarrow> list_all (\<lambda>t. get_model_matrix api (snd (snd t)) \<noteq> None) (triples g))
      keys \<longrightarrow>
    draw_loop api triples get_shader dw keys st = (st, None)"
    by (rule impI) (rule draw_loop_unchanged)
  have fill: "get_visibility api inst \<and> (shader_name_of (get_shader p) = ''wireframe'' \<longrightarrow> dw) \<and>
    get_model_matrix api inst = None \<longrightarrow>
    draw_instance api get_shader dw g (instance_id, p, inst) =
      set_model_matrix api g instance_id (Some eye4)"
    using draw_instance_default [of api inst get_shader p dw g instance_id] by blast
  show ?thesis
    by (rule conjI [OF producers_ids conjI [OF producers_put conjI [OF keep conjI [OF cores
          conjI [OF empty conjI [OF same conjI [OF fill draw_loop_keeps]]]]]]])
qed

theorem producers_allocate_and_enqueue_witness:
  "snd (add_mesh (demo_scene None) [(0, 0, 0), (1, 0, 0), (0, 1, 0)] [[0, 1, 2]]) =
     Inr (GlMeshCoreId 1) \<and>
   cores_below_counter (demo_scene None) \<and>
   mesh_groups (demo_scene None) 0 \<noteq> None \<and>
   mesh_groups (demo_scene None) (core_id (GlMeshCoreId 1)) = None \<and>
   \<not> below_counter (demo_scene None) (GlMeshCoreId 1) \<and>
   below_counter (fst (add_mesh (demo_scene None) [(0, 0, 0), (1, 0, 0), (0, 1, 0)] [[0, 1, 2]]))
     (GlMeshCoreId 1) \<and>
   mesh_groups (fst (add_mesh (demo_scene None) [(0, 0, 0), (1, 0, 0), (0, 1, 0)] [[0, 1, 2]])) =
     mesh_groups (demo_scene None) \<and>
   mesh_events (fst (add_mesh (demo_scene None) [(0, 0, 0), (1, 0, 0), (0, 1, 0)] [[0, 1, 2]])) =
     mesh_events (demo_scene None) @
       [Add_mesh (GlMeshCoreId 1) [(0, 0, 0), (1, 0, 0), (0, 1, 0)] [[0, 1, 2]]] \<and>
   snd (add_mesh (fst (add_mesh (demo_scene None) [(0, 0, 0), (1, 0, 0), (0, 1, 0)] [[0, 1, 2]]))
          [(0, 0, 0), (1, 0, 0), (0, 1, 0)] [[0, 1, 2]]) = Inr (GlMeshCoreId 2) \<and>
   Add_mesh (GlMeshCoreId 1) [(0, 0, 0), (1, 0, 0), (0, 1, 0)] [[0, 1, 2]] \<in>
     set (mesh_events (fst (add_mesh (demo_scene None) [(0, 0, 0), (1, 0, 0), (0, 1, 0)] [[0, 1, 2]]))) \<and>
   core_id (GlMeshCoreId 1) \<noteq> core_id (GlMeshCoreId 2) \<and>
   snd (add_mesh (demo_scene None) [(0, 0, 0)] [[5]]) = Inl IndexError \<and>
   mesh_events (fst (add_mesh (demo_scene None) [(0, 0, 0)] [[5]])) = mesh_events (demo_scene None) \<and>
   next_core_id (fst (add_mesh (demo_scene None) [(0, 0, 0)] [[5]])) = next_core_id (demo_scene None) \<and>
   below_counter (demo_scene None) demo_instance \<and>
   below_counter (fst (process_mesh_events mesh_spec (demo_scene None))) demo_instance \<and>
   below_counter (fst (add_mesh_instance (demo_scene None) demo_prefab None)) demo_instance \<and>
   snd (add_mesh_instance (demo_scene None) demo_prefab None) = GlMeshInstanceId demo_prefab 1 \<and>
   mesh_events (demo_scene None) = [] \<and>
   process_mesh_events mesh_spec (demo_scene None) = (demo_scene None, None) \<and>
   draw_loop mesh_spec (spec_triples [demo_instance]) prefab_shader True [0] (demo_scene (Some eye4)) =
     (demo_scene (Some eye4), None) \<and>
   draw_instance mesh_spec prefab_shader True (the (mesh_groups (demo_scene None) 0))
       (demo_instance, the (prefabs (the (mesh_groups (demo_scene None) 0)) demo_prefab),
        \<lparr>instance_model_matrix = None, instance_visibility = True\<rparr>) =
     set_model_matrix mesh_spec (the (mesh_groups (demo_scene None) 0)) demo_instance (Some eye4)"
proof -
  let ?tri = "[(0, 0, 0), (1, 0, 0), (0, 1, 0)] :: vec3 list"
  let ?fs = "[[0, 1, 2]] :: int list list"
  let ?s = "demo_scene None"
  let ?s2 = "fst (add_mesh ?s ?tri ?fs)"
  let ?g = "the (mesh_groups ?s 0)"
  let ?p = "the (prefabs ?g demo_prefab)"
  let ?inst = "\<lparr>instance_model_matrix = None, instance_visibility = True\<rparr>"
  note T = producers_allocate_and_enqueue [where st = ?s and vs = ?tri and fs = ?fs
      and api = mesh_spec and i = demo_instance and pid = demo_prefab and m = None
      and inst = ?inst and p = ?p and g = ?g and instance_id = demo_instance
      and get_shader = prefab_shader and dw = True]
  note B = producers_allocate_and_enqueue [where st = ?s and vs = "[(0, 0, 0)]" and fs = "[[5]]"]
  note T2 = producers_allocate_and_enqueue [where st = ?s2 and vs = ?tri and fs = ?fs]
  note D = producers_allocate_and_enqueue [where st = "demo_scene (Some eye4)" and api = mesh_spec
      and triples = "spec_triples [demo_instance]" and get_shader = prefab_shader and dw = True
      and keys = "[0]"]
  have ok: "snd (add_mesh ?s ?tri ?fs) = Inr (GlMeshCoreId 1)"
    by (rule demo_scene_add_mesh)
  have inv: "cores_below_counter ?s"
    by (simp add: cores_below_counter_def demo_scene_groups)
  have held: "mesh_groups ?s 0 \<noteq> None"
    by (simp add: demo_scene_groups)
  have ids: "\<not> below_counter ?s (GlMeshCoreId 1) \<and> below_counter ?s2 (GlMeshCoreId 1)"
    using T [THEN conjunct1, THEN conjunct1] ok by blast
  have puts: "mesh_groups ?s2 = mesh_groups ?s \<and>
      mesh_events ?s2 = mesh_events ?s @ [Add_mesh (GlMeshCoreId 1) ?tri ?fs]"
    using T [THEN conjunct2, THEN conjunct1] ok by blast
  have fresh: "mesh_groups ?s (core_id (GlMeshCoreId 1)) = None \<and> cores_below_counter ?s2"
    using T [THEN conjunct2, THEN conjunct2, THEN conjunct2, THEN conjunct1] ok inv by blast
  have ok2: "snd (add_mesh ?s2 ?tri ?fs) = Inr (GlMeshCoreId 2)"
    by (simp add: add_mesh_def Let_def face_position_def bind_def np_index_def put_def
        demo_scene_groups)
  have queued: "Add_mesh (GlMeshCoreId 1) ?tri ?fs \<in> set (mesh_events ?s2)"
    using puts by simp
  have differ: "core_id (GlMeshCoreId 1) \<noteq> core_id (GlMeshCoreId 2)"
    using T2 [THEN conjunct2, THEN conjunct2, THEN conjunct2, THEN conjunct1] ok2 fresh queued
    by blast
  have bad: "snd (add_mesh ?s [(0, 0, 0)] [[5]]) = Inl IndexError"
    by (simp add: add_mesh_def face_position_def bind_def np_index_def Let_def)
  have bad_put: "mesh_events (fst (add_mesh ?s [(0, 0, 0)] [[5]])) = mesh_events ?s"
    using B [THEN conjunct2, THEN conjunct1] bad by blast
  have bad_id: "next_core_id (fst (add_mesh ?s [(0, 0, 0)] [[5]])) = next_core_id ?s"
    using B [THEN conjunct1] bad by blast
  have below: "below_counter ?s demo_instance"
    by (simp add: demo_instance_def demo_scene_groups)
  have kept: "below_counter (fst (process_mesh_events mesh_spec ?s)) demo_instance \<and>
      below_counter (fst (add_mesh_instance ?s demo_prefab None)) demo_instance"
    using T [THEN conjunct2, THEN conjunct2, THEN conjunct1] below by blast
  have inst_id: "snd (add_mesh_instance ?s demo_prefab None) = GlMeshInstanceId demo_prefab 1"
    using T [THEN conjunct1] by (simp add: demo_scene_groups)
  have empty: "mesh_events ?s = []"
    by (simp add: demo_scene_groups)
  have drained: "process_mesh_events mesh_spec ?s = (?s, None)"
    using T [THEN conjunct2, THEN conjunct2, THEN conjunct2, THEN conjunct2, THEN conjunct1] empty
    by blast
  have every: "list_all (\<lambda>k. case mesh_groups (demo_scene (Some eye4)) k of
                    None \<Rightarrow> True
                  | Some g \<Rightarrow> list_all (\<lambda>t. get_model_matrix mesh_spec (snd (snd t)) \<noteq> None)
                      (spec_triples [demo_instance] g)) [0]"
    by (simp add: demo_scene_groups spec_triples_def demo_instance_def mesh_spec_def eye4_def)
  have drawn: "draw_loop mesh_spec (spec_triples [demo_instance]) prefab_shader True [0]
      (demo_scene (Some eye4)) = (demo_scene (Some eye4), None)"
    using D [THEN conjunct2, THEN conjunct2, THEN conjunct2, THEN conjunct2, THEN conjunct2,
        THEN conjunct1] every by blast
  have filled: "draw_instance mesh_spec prefab_shader True ?g (demo_instance, ?p, ?inst) =
      set_model_matrix mesh_spec ?g demo_instance (Some eye4)"
    using T [THEN conjunct2, THEN conjunct2, THEN conjunct2, THEN conjunct2, THEN conjunct2,
        THEN conjunct2, THEN conjunct1]
    by (simp add: mesh_spec_def)
  show ?thesis
    using ok inv held ids puts fresh ok2 queued differ bad bad_put bad_id below kept inst_id
      empty drained drawn filled
    by blast
qed

text \<open>
  The apply routines do not read the queue, and \<open>add_wireframe_\<close> only appends to
  it: a routine run before a longer queue does what it does before a shorter one.
\<close>

lemma get_mesh_frame: "get_mesh (st\<lparr>mesh_events := q\<rparr>) i = get_mesh st i"
  by (simp add: get_mesh_def)

lemma update_group_frame:
  "update_group (st\<lparr>mesh_events := q\<rparr>) i f =
     (case update_group st i f of (st', r) \<Rightarrow> (st'\<lparr>mesh_events := q\<rparr>, r))"
  by (simp add: update_group_def get_mesh_frame split: sum.split)

lemma add_prefab_default_frame:
  "add_prefab_default api (st\<lparr>mesh_events := q\<rparr>) pid va fa un fill cf =
     (case add_prefab_default api st pid va fa un fill cf of (st', r) \<Rightarrow> (st'\<lparr>mesh_events := q\<rparr>, r))"
  by (simp add: add_prefab_default_def update_group_frame get_mesh_frame split: sum.split option.split)

lemma add_mesh_prefab_'_frame:
  "add_mesh_prefab_' api (st\<lparr>mesh_events := q\<rparr>) pid sh va fa un fill cf =
     (case add_mesh_prefab_' api st pid sh va fa un fill cf of (st', r) \<Rightarrow> (st'\<lparr>mesh_events := q\<rparr>, r))"
proof -
  have upd: "\<And>err. (st\<lparr>mesh_events := q\<rparr>)\<lparr>stdout := stdout st @ [err]\<rparr> =
      (st\<lparr>stdout := stdout st @ [err]\<rparr>)\<lparr>mesh_events := q\<rparr>" by simp
  have upd2: "\<And>g. (st\<lparr>mesh_events := q\<rparr>)\<lparr>mesh_groups := g\<rparr> =
      (st\<lparr>mesh_groups := g\<rparr>)\<lparr>mesh_events := q\<rparr>" by simp
  show ?thesis
    unfolding add_mesh_prefab_'_def get_mesh_prefab_def get_mesh_frame
    by (simp add: upd upd2 add_prefab_default_frame del: update_convs
        split: sum.split option.split error.split) 
qed

lemma update_group_events': "update_group st i f = (st', r) \<Longrightarrow> mesh_events st' = mesh_events st"
  using update_group_events [of st i f] by simp

lemma add_mesh_prefab_'_events':
  "add_mesh_prefab_' api st pid sh va fa un fill cf = (st', r) \<Longrightarrow> mesh_events st' = mesh_events st"
  using add_mesh_prefab_'_events [of api st pid sh va fa un fill cf] by simp

lemma dispatch_frame:
  "dispatch api e (st\<lparr>mesh_events := q @ mesh_events st\<rparr>) =
     (case dispatch api e st of (st', r) \<Rightarrow> (st'\<lparr>mesh_events := q @ mesh_events st'\<rparr>, r))"
proof (cases e)
  case (Add_wireframe i c)
  then show ?thesis
    by (simp add: add_wireframe_'_def add_mesh_prefab_def add_mesh_instance_def put_def Let_def
        get_mesh_instance_def get_mesh_def split: sum.split option.split)
next
  case (Add_mesh_prefab pid sh va fa un fill cf)
  then show ?thesis
    by (auto simp: add_mesh_prefab_'_frame dest: add_mesh_prefab_'_events' split: prod.split)
next
  case (Remove_mesh c)
  then show ?thesis by (simp add: remove_mesh_'_def split: option.split)
qed (auto simp: add_mesh_'_def add_mesh_instance_'_def
    update_group_frame update_mesh_vertices_'_def update_mesh_prefab_uniform_'_def
    update_mesh_prefab_vertex_attribute_'_def update_mesh_prefab_face_attribute_'_def
    update_mesh_instance_model_'_def set_mesh_instance_visibility_'_def 
    remove_mesh_prefab_'_def remove_mesh_instance_'_def clear_all_'_def
    dest: update_group_events' split: prod.split)

lemma drain_after_apply:
  "apply_in_order api cs st = (st', r) \<Longrightarrow>
   (r = None \<longrightarrow> process_mesh_events api (st\<lparr>mesh_events := cs @ mesh_events st\<rparr>) =
                   process_mesh_events api st') \<and>
   (\<forall>err. r = Some err \<longrightarrow>
      snd (process_mesh_events api (st\<lparr>mesh_events := cs @ mesh_events st\<rparr>)) = Some err)"
proof (induction cs arbitrary: st)
  case Nil
  then show ?case by simp
next
  case (Cons c cs)
  obtain s1 r1 where d: "dispatch api c st = (s1, r1)" by (cases "dispatch api c st")
  have unfold: "process_mesh_events api (st\<lparr>mesh_events := (c # cs) @ mesh_events st\<rparr>) =
      (case r1 of Some err \<Rightarrow> (s1\<lparr>mesh_events := cs @ mesh_events s1\<rparr>, Some err)
       | None \<Rightarrow> process_mesh_events api (s1\<lparr>mesh_events := cs @ mesh_events s1\<rparr>))"
    using dispatch_frame [of api c cs st] d
    by (subst process_mesh_events.simps) (simp split: option.split)
  show ?case
  proof (cases r1)
    case None
    then have "apply_in_order api cs s1 = (st', r)" using Cons.prems d by simp
    from Cons.IH [OF this] show ?thesis using unfold None by simp
  next
    case (Some err)
    then have "st' = s1" "r = Some err" using Cons.prems d by simp_all
    then show ?thesis using unfold Some by simp
  qed
qed


text \<open>Two writes of one uniform of an existing prefab, queued and drained over the
  spec's mesh module.\<close>

lemma uniform_last_write:
  assumes q: "mesh_events s = []"
    and g: "mesh_groups s (core_id A) = Some g"
    and p: "prefabs g A = Some p"
  shows "\<exists>s'. process_mesh_events mesh_spec
            (update_mesh_prefab_uniform (update_mesh_prefab_uniform s A x v1) A x v2) = (s', None) \<and>
          mesh_events s' = [] \<and> uniform_of s' A x = Some v2"
  unfolding update_mesh_prefab_uniform_def put_def
  apply (subst process_mesh_events.simps)
  apply (simp add: q update_mesh_prefab_uniform_'_def update_group_def get_mesh_def g p bind_def
      mesh_spec_defs)
  apply (subst process_mesh_events.simps)
  apply (simp add: q update_mesh_prefab_uniform_'_def update_group_def get_mesh_def g p bind_def
      mesh_spec_defs)
  apply (subst process_mesh_events.simps)
  apply (simp add: uniform_of_def)
  done

text \<open>
  C5. Draining a queue that holds the commands \<open>cs\<close> (before whatever \<open>st\<close> already
  holds) does what running their apply routines one by one, in the order of the list,
  does: when no routine raises, the drain goes on from the state they leave (with the
  commands that \<open>add_wireframe_\<close> routines have put); when one raises, the drain ends
  with that exception. In particular, over the spec's mesh module and for an existing
  prefab \<open>A\<close>: after \<open>update_mesh_prefab_uniform(A, x, v1)\<close> and then
  \<open>update_mesh_prefab_uniform(A, x, v2)\<close> on an empty queue, the drain returns with
  the queue empty and the uniform \<open>x\<close> of \<open>A\<close> equal to \<open>v2\<close>.
\<close>

theorem drain_in_enqueue_order:
  "(apply_in_order api cs st = (st', None) \<longrightarrow>
      process_mesh_events api (st\<lparr>mesh_events := cs @ mesh_events st\<rparr>) =
      process_mesh_events api st') \<and>
   (apply_in_order api cs st = (st', Some err) \<longrightarrow>
      snd (process_mesh_events api (st\<lparr>mesh_events := cs @ mesh_events st\<rparr>)) = Some err) \<and>
   (mesh_events s = [] \<and> mesh_groups s (core_id A) = Some g \<and> prefabs g A = Some p \<longrightarrow>
      (\<exists>s'. process_mesh_events mesh_spec
               (update_mesh_prefab_uniform (update_mesh_prefab_uniform s A x v1) A x v2) =
               (s', None) \<and>
             mesh_events s' = [] \<and> uniform_of s' A x = Some v2))"
  using drain_after_apply [of api cs st st'] uniform_last_write [of s A g p x v1 v2] by blast

lemma demo_prefab_exists:
  "mesh_events demo_viewer_with_prefab = [] \<and>
   mesh_groups demo_viewer_with_prefab (core_id demo_prefab) \<noteq> None \<and>
   prefabs (the (mesh_groups demo_viewer_with_prefab (core_id demo_prefab))) demo_prefab \<noteq> None"
  by (simp add: demo_defs add_shaders.simps bind_def mesh_spec_defs)

theorem drain_in_enqueue_order_witness:
  "snd (apply_in_order mesh_spec
          [Update_mesh_prefab_uniform demo_prefab ''x'' (Scalar 1),
           Update_mesh_prefab_uniform demo_prefab ''x'' (Scalar 2)] demo_viewer_with_prefab) = None \<and>
   process_mesh_events mesh_spec (demo_viewer_with_prefab\<lparr>mesh_events :=
       [Update_mesh_prefab_uniform demo_prefab ''x'' (Scalar 1),
        Update_mesh_prefab_uniform demo_prefab ''x'' (Scalar 2)] @ mesh_events demo_viewer_with_prefab\<rparr>) =
     process_mesh_events mesh_spec (fst (apply_in_order mesh_spec
          [Update_mesh_prefab_uniform demo_prefab ''x'' (Scalar 1),
           Update_mesh_prefab_uniform demo_prefab ''x'' (Scalar 2)] demo_viewer_with_prefab)) \<and>
   apply_in_order mesh_spec [Remove_mesh (GlMeshCoreId 7)] demo_viewer_with_prefab =
     (demo_viewer_with_prefab, Some KeyError) \<and>
   snd (process_mesh_events mesh_spec (demo_viewer_with_prefab\<lparr>mesh_events :=
       [Remove_mesh (GlMeshCoreId 7)] @ mesh_events demo_viewer_with_prefab\<rparr>)) = Some KeyError \<and>
   mesh_events demo_viewer_with_prefab = [] \<and>
   (\<exists>s'. process_mesh_events mesh_spec
            (update_mesh_prefab_uniform
               (update_mesh_prefab_uniform demo_viewer_with_prefab demo_prefab ''x'' (Scalar 1))
               demo_prefab ''x'' (Scalar 2)) = (s', None) \<and>
          mesh_events s' = [] \<and> uniform_of s' demo_prefab ''x'' = Some (Scalar 2))"
proof -
  let ?cs = "[Update_mesh_prefab_uniform demo_prefab ''x'' (Scalar 1),
              Update_mesh_prefab_uniform demo_prefab ''x'' (Scalar 2)]"
  have ex: "mesh_events demo_viewer_with_prefab = []"
    "mesh_groups demo_viewer_with_prefab (core_id demo_prefab) =
       Some (the (mesh_groups demo_viewer_with_prefab (core_id demo_prefab)))"
    "prefabs (the (mesh_groups demo_viewer_with_prefab (core_id demo_prefab))) demo_prefab =
       Some (the (prefabs (the (mesh_groups demo_viewer_with_prefab (core_id demo_prefab))) demo_prefab))"
    using demo_prefab_exists by simp_all
  have ok: "snd (apply_in_order mesh_spec ?cs demo_viewer_with_prefab) = None"
    by (simp add: update_mesh_prefab_uniform_'_def update_group_def demo_defs bind_def
        mesh_spec_defs)
  then have ok': "apply_in_order mesh_spec ?cs demo_viewer_with_prefab =
      (fst (apply_in_order mesh_spec ?cs demo_viewer_with_prefab), None)"
    by (metis prod.collapse)
  have bad: "apply_in_order mesh_spec [Remove_mesh (GlMeshCoreId 7)] demo_viewer_with_prefab =
      (demo_viewer_with_prefab, Some KeyError)"
    by (simp add: remove_mesh_'_def demo_defs bind_def mesh_spec_defs)
  show ?thesis
    using ok ok' bad ex
      drain_in_enqueue_order [of mesh_spec ?cs demo_viewer_with_prefab
        "fst (apply_in_order mesh_spec ?cs demo_viewer_with_prefab)" KeyError
        demo_viewer_with_prefab demo_prefab
        "the (mesh_groups demo_viewer_with_prefab (core_id demo_prefab))"
        "the (prefabs (the (mesh_groups demo_viewer_with_prefab (core_id demo_prefab))) demo_prefab)"
        "''x''" "Scalar 1" "Scalar 2"]
      drain_in_enqueue_order [of mesh_spec "[Remove_mesh (GlMeshCoreId 7)]" demo_viewer_with_prefab
        demo_viewer_with_prefab KeyError]
    by blast
qed

text \<open>
  C9, at a failing input: two successive calls of \<open>display_point_cloud\<close> that omit
  \<open>vertex_attributes\<close>, the first with two points and the second with three. The first
  call writes its colour array of two rows into the shared default dictionary. The
  second call finds the key \<open>vertexColor\<close> there and puts an \<open>add_mesh_prefab\<close> command
  that carries the two rows of the first call for its three points; the same call on a
  viewer whose default dictionary is still empty carries three rows.
\<close>

theorem display_point_cloud_shares_default:
  "display_point_cloud_vertex_attributes
     (fst (display_point_cloud demo_viewer [(0, 0, 0), (1, 0, 0)]
             ''per_vertex_color'' Map.empty None Map.empty)) ''vertexColor'' =
     Some [(8 / 10, 2 / 10, 2 / 10), (8 / 10, 2 / 10, 2 / 10)] \<and>
   map queued_vertex_color (mesh_events
     (fst (display_point_cloud
        (fst (display_point_cloud demo_viewer [(0, 0, 0), (1, 0, 0)]
                ''per_vertex_color'' Map.empty None Map.empty))
        [(0, 0, 0), (1, 0, 0), (0, 1, 0)] ''per_vertex_color'' Map.empty None Map.empty))) =
     [None, Some [(8 / 10, 2 / 10, 2 / 10), (8 / 10, 2 / 10, 2 / 10)], None,
      None, Some [(8 / 10, 2 / 10, 2 / 10), (8 / 10, 2 / 10, 2 / 10)], None] \<and>
   map queued_vertex_color (mesh_events
     (fst (display_point_cloud demo_viewer
        [(0, 0, 0), (1, 0, 0), (0, 1, 0)] ''per_vertex_color'' Map.empty None Map.empty))) =
     [None, Some [(8 / 10, 2 / 10, 2 / 10), (8 / 10, 2 / 10, 2 / 10), (8 / 10, 2 / 10, 2 / 10)], None]"
  by (simp add: display_point_cloud_def demo_defs add_mesh_def add_mesh_prefab_def
      add_mesh_instance_def put_def face_position_def vmean_def mean_def bind_def np_index_def
      Let_def upt_rec)

end
